theory Spec2Isabelle
  imports Main
begin

section \<open>Browser storage and the application context (src/contexts/app-context.tsx)\<close>

text \<open>
  A JavaScript \<open>Error\<close> is modelled by its message. Every \<open>throw\<close> of the source is
  an \<open>Inl\<close> of a sum type, every normal return an \<open>Inr\<close>.
\<close>

datatype error = Error string

text \<open>
  A slot of \<open>localStorage\<close> holds a raw text. The seen-item code only asks three things
  of a raw text: whether it is truthy (non-empty), whether \<open>JSON.parse\<close> accepts it, and
  whether the parsed value is an array. The three constructors are the three kinds of
  text: \<open>ArrayJson xs\<close> is the text \<open>JSON.stringify\<close> writes for the string array
  \<open>xs\<close>, \<open>NonArrayJson\<close> is the JSON text of any value that is not an array, and
  \<open>Text s\<close> is a raw text \<open>s\<close> stored as it is (the API key; \<open>JSON.parse\<close> rejects it).
\<close>

datatype stored = Text string | NonArrayJson | ArrayJson "string list"

datatype json = JArray "string list" | JOther

type_synonym storage = "string \<rightharpoonup> stored"

definition API_KEY_STORAGE_KEY :: string where
  "API_KEY_STORAGE_KEY = ''google-ai-api-key''"

definition HUMAN_VERIFIED_SESSION_KEY :: string where
  "HUMAN_VERIFIED_SESSION_KEY = ''human-verified-session''"

definition SEEN_QUOTES_STORAGE_KEY :: string where
  "SEEN_QUOTES_STORAGE_KEY = ''seen-recipe-quotes''"

definition SEEN_RECIPES_STORAGE_KEY :: string where
  "SEEN_RECIPES_STORAGE_KEY = ''seen-recipe-titles''"

definition SEEN_PASSPORT_DISHES_KEY :: string where
  "SEEN_PASSPORT_DISHES_KEY = ''seen-passport-dishes''"

definition SEEN_WEEKLY_PLANS_KEY :: string where
  "SEEN_WEEKLY_PLANS_KEY = ''seen-weekly-plan-titles''"

definition MAX_SEEN_ITEMS :: nat where
  "MAX_SEEN_ITEMS = 100"

text \<open>Truthiness of what \<open>getItem\<close> returned: \<open>null\<close> and the empty text are falsy.\<close>

fun truthy_raw :: "stored option \<Rightarrow> bool" where
  "truthy_raw None = False"
| "truthy_raw (Some (Text s)) = (s \<noteq> [])"
| "truthy_raw (Some NonArrayJson) = True"
| "truthy_raw (Some (ArrayJson xs)) = True"

fun JSON_parse :: "stored \<Rightarrow> error + json" where
  "JSON_parse (Text s) = Inl (Error ''SyntaxError'')"
| "JSON_parse NonArrayJson = Inr JOther"
| "JSON_parse (ArrayJson xs) = Inr (JArray xs)"

definition JSON_stringify :: "string list \<Rightarrow> stored" where
  "JSON_stringify xs = ArrayJson xs"

text \<open>\<open>raw ? JSON.parse(raw) : []\<close>, the first two lines of both \<open>try\<close> blocks.\<close>

definition parseStoredItems :: "stored option \<Rightarrow> error + json" where
  "parseStoredItems raw =
     (if truthy_raw raw then (case raw of Some r \<Rightarrow> JSON_parse r | None \<Rightarrow> Inr (JArray []))
      else Inr (JArray []))"

record app_state =
  apiKey :: "string option"
  isVerifiedHuman :: bool
  seenQuotes :: "string list"
  seenRecipeTitles :: "string list"
  seenPassportDishes :: "string list"
  seenWeeklyPlanTitles :: "string list"
  localStorage :: storage
  sessionStorage :: "string \<rightharpoonup> string"

text \<open>The values of the \<open>useState\<close> calls, over empty browser storage.\<close>

definition initialState :: app_state where
  "initialState =
     \<lparr> apiKey = None, isVerifiedHuman = False, seenQuotes = [], seenRecipeTitles = [],
       seenPassportDishes = [], seenWeeklyPlanTitles = [],
       localStorage = Map.empty, sessionStorage = Map.empty \<rparr>"

definition String_of_bool :: "bool \<Rightarrow> string" where
  "String_of_bool b = (if b then ''true'' else ''false'')"

definition setVerifiedHuman :: "bool \<Rightarrow> app_state \<Rightarrow> app_state" where
  "setVerifiedHuman isVerified st =
     st\<lparr> isVerifiedHuman := isVerified,
         sessionStorage := (sessionStorage st)(HUMAN_VERIFIED_SESSION_KEY \<mapsto> String_of_bool isVerified) \<rparr>"

text \<open>
  \<open>if (key)\<close> is JavaScript truthiness: \<open>null\<close> and the empty string both take the
  \<open>else\<close> branch.
\<close>

definition setApiKey :: "string option \<Rightarrow> app_state \<Rightarrow> app_state" where
  "setApiKey key st =
     (let st1 = st\<lparr> apiKey := key \<rparr> in
      case key of
        Some k \<Rightarrow>
          (if k \<noteq> [] then st1\<lparr> localStorage := (localStorage st1)(API_KEY_STORAGE_KEY \<mapsto> Text k) \<rparr>
           else setVerifiedHuman False
                  (st1\<lparr> localStorage := (localStorage st1)(API_KEY_STORAGE_KEY := None) \<rparr>))
      | None \<Rightarrow>
          setVerifiedHuman False
            (st1\<lparr> localStorage := (localStorage st1)(API_KEY_STORAGE_KEY := None) \<rparr>))"

definition isApiKeySet :: "app_state \<Rightarrow> bool" where
  "isApiKeySet st = (case apiKey st of None \<Rightarrow> False | Some k \<Rightarrow> k \<noteq> [])"

text \<open>
  \<open>addSeenItem\<close> returns the new list and writes it to storage. The three outcomes of
  the \<open>try\<close> block are the three branches: an array, a parsed value that is no array,
  and an exception of \<open>JSON.parse\<close>.
\<close>

definition addSeenItem :: "string \<Rightarrow> string \<Rightarrow> storage \<Rightarrow> string list \<times> storage" where
  "addSeenItem key item ls =
     (case parseStoredItems (ls key) of
        Inr (JArray storedItems) \<Rightarrow>
          (let newItems = take MAX_SEEN_ITEMS (item # storedItems)
           in (newItems, ls(key \<mapsto> JSON_stringify newItems)))
      | Inr JOther \<Rightarrow>
          (let newItems = [item] in (newItems, ls(key \<mapsto> JSON_stringify newItems)))
      | Inl e \<Rightarrow>
          (let newItems = [item] in (newItems, ls(key \<mapsto> JSON_stringify newItems))))"

definition addSeenQuote :: "string \<Rightarrow> app_state \<Rightarrow> app_state" where
  "addSeenQuote quote st =
     (let (newSeenQuotes, ls) = addSeenItem SEEN_QUOTES_STORAGE_KEY quote (localStorage st)
      in st\<lparr> seenQuotes := newSeenQuotes, localStorage := ls \<rparr>)"

definition addSeenRecipeTitle :: "string \<Rightarrow> app_state \<Rightarrow> app_state" where
  "addSeenRecipeTitle title st =
     (let (newSeenRecipeTitles, ls) = addSeenItem SEEN_RECIPES_STORAGE_KEY title (localStorage st)
      in st\<lparr> seenRecipeTitles := newSeenRecipeTitles, localStorage := ls \<rparr>)"

definition addSeenWeeklyPlanTitle :: "string \<Rightarrow> app_state \<Rightarrow> app_state" where
  "addSeenWeeklyPlanTitle title st =
     (let (newSeenWeeklyPlanTitles, ls) = addSeenItem SEEN_WEEKLY_PLANS_KEY title (localStorage st)
      in st\<lparr> seenWeeklyPlanTitles := newSeenWeeklyPlanTitles, localStorage := ls \<rparr>)"

text \<open>
  The parameter type of \<open>addSeenPassportDishes\<close> is \<open>{ dishNameEnglish: string }[]\<close>:
  any record with that field, which is a record scheme here.
\<close>

record dish_name =
  dishNameEnglish :: string

definition passportKey :: "string \<Rightarrow> 'a dish_name_scheme \<Rightarrow> string" where
  "passportKey destination dish = destination @ ''|'' @ dishNameEnglish dish"

definition addSeenPassportDishes :: "'a dish_name_scheme list \<Rightarrow> string \<Rightarrow> app_state \<Rightarrow> app_state" where
  "addSeenPassportDishes dishes destination st =
     (let newDishes = map (passportKey destination) dishes in
      case parseStoredItems (localStorage st SEEN_PASSPORT_DISHES_KEY) of
        Inr (JArray storedItems) \<Rightarrow>
          (let currentDishes = filter (\<lambda>d. d \<notin> set newDishes) storedItems;
               newSeenDishes = take MAX_SEEN_ITEMS (newDishes @ currentDishes)
           in st\<lparr> seenPassportDishes := newSeenDishes,
                   localStorage := (localStorage st)(SEEN_PASSPORT_DISHES_KEY \<mapsto> JSON_stringify newSeenDishes) \<rparr>)
      | Inr JOther \<Rightarrow>
          st\<lparr> seenPassportDishes := newDishes,
              localStorage := (localStorage st)(SEEN_PASSPORT_DISHES_KEY \<mapsto> JSON_stringify newDishes) \<rparr>
      | Inl e \<Rightarrow>
          st\<lparr> seenPassportDishes := newDishes,
              localStorage := (localStorage st)(SEEN_PASSPORT_DISHES_KEY \<mapsto> JSON_stringify newDishes) \<rparr>)"


section \<open>String helpers of the JavaScript runtime\<close>

text \<open>\<open>s.startsWith(p)\<close> and \<open>s.includes(p)\<close>.\<close>

fun startsWith :: "string \<Rightarrow> string \<Rightarrow> bool" where
  "startsWith s [] = True"
| "startsWith [] (p # ps) = False"
| "startsWith (c # s) (p # ps) = (c = p \<and> startsWith s ps)"

fun includes_str :: "string \<Rightarrow> string \<Rightarrow> bool" where
  "includes_str [] p = startsWith [] p"
| "includes_str (c # s) p = (startsWith (c # s) p \<or> includes_str s p)"

text \<open>
  A text the user types can hold any character. Such a text is the list of its UTF-16
  code units, each a natural number below 65536: every character that
  \<open>String.prototype.trim\<close> removes is one code unit.
\<close>

type_synonym code_unit = nat

type_synonym utf16 = "code_unit list"

text \<open>\<open>xs[0]\<close>: \<open>undefined\<close> on the empty array.\<close>

fun index0 :: "'a list \<Rightarrow> 'a option" where
  "index0 [] = None"
| "index0 (x # xs) = Some x"

section \<open>The recipe generator (recipe-schemas.ts, generate-recipe.ts)\<close>

record recipe_option =
  recipeName :: string
  description :: string
  instructions :: string
  ingredientList :: "string list"
  missingIngredients :: "string list"
  nutritionalInformation :: string

record quote_option =
  quote :: string
  quoteAuthor :: string

record generate_recipe_input =
  mood :: "string option"
  duration :: "string option"
  vegetarian :: bool
  dislikedIngredients :: "utf16 list"
  availableIngredients :: "string list"
  additionalIngredients :: "utf16 list"
  photoDataUri :: "string option"
  seenRecipeTitles :: "string list option"
  seenQuotes :: "string list option"

record generate_recipe_options_output =
  recipeOptions :: "recipe_option list"
  quoteOptions :: "quote_option list"

record validate_and_select_input =
  recipeOptions :: "recipe_option list"
  quoteOptions :: "quote_option list"
  seenRecipeTitles :: "string list option"
  seenQuotes :: "string list option"

record validate_and_select_output =
  selectedRecipe :: recipe_option
  selectedQuote :: quote_option

record generate_recipe_output =
  recipeName :: string
  description :: string
  photoDataUri :: string
  instructions :: string
  ingredientList :: "string list"
  missingIngredients :: "string list"
  nutritionalInformation :: string
  quote :: string
  quoteAuthor :: string

record media =
  url :: string

section \<open>The culinary passport schemas (culinary-passport-schemas.ts)\<close>

record generate_culinary_passport_input =
  destination :: string
  dietaryNeeds :: string
  preferences :: "string option"
  seenDishes :: "string list option"

record dish_recommendation = dish_name +
  dishNameLocal :: string
  description :: string

record dish_with_photo = dish_recommendation +
  photoDataUri :: string

record culinary_passport_text =
  recommendations :: "dish_recommendation list"
  chefCardMessage :: string

record culinary_passport =
  recommendations :: "dish_with_photo list"
  chefCardMessage :: string
  chefCardAudioUri :: string

section \<open>The external model\<close>

text \<open>
  The generative model is outside the repository. Its answers are parameters of the
  flows: each prompt is a function of the input it is called with, and of the number of
  the request where the source repeats a request (\<open>1\<close> is the first request). An answer
  is an exception (\<open>Inl\<close>) or a response whose \<open>output\<close>, or \<open>media\<close>, may be null
  (\<open>None\<close>). \<open>generate\<close> takes the name of the model and the prompt. \<open>toWav\<close> is the
  codec of the \<open>wav\<close> package applied to the decoded payload; its promise may reject.
\<close>

record genkit =
  generateOptionsPrompt :: "generate_recipe_input \<Rightarrow> error + generate_recipe_options_output option"
  validateAndSelectPrompt :: "validate_and_select_input \<Rightarrow> error + validate_and_select_output option"
  passportTextPrompt :: "generate_culinary_passport_input \<Rightarrow> nat \<Rightarrow> error + culinary_passport_text option"
  generate :: "string \<Rightarrow> string \<Rightarrow> nat \<Rightarrow> error + media option"
  toWav :: "string \<Rightarrow> error + string"

definition IMAGE_MODEL :: string where
  "IMAGE_MODEL = ''googleai/gemini-2.0-flash-preview-image-generation''"

definition TTS_MODEL :: string where
  "TTS_MODEL = ''googleai/gemini-2.5-flash-preview-tts''"

text \<open>\<open>media?.url || ''\<close>\<close>

definition url_or_empty :: "media option \<Rightarrow> string" where
  "url_or_empty m = (case m of None \<Rightarrow> [] | Some x \<Rightarrow> (if url x \<noteq> [] then url x else []))"

subsection \<open>generateRecipeFlow\<close>

text \<open>
  Step 2. The local \<open>finalSelection\<close> is null, or a pair whose components are
  \<open>undefined\<close> when the fallback indexes an empty array.
\<close>

definition selectionInput ::
  "generate_recipe_input \<Rightarrow> generate_recipe_options_output \<Rightarrow> validate_and_select_input" where
  "selectionInput flowInput optionsOutput =
     \<lparr> validate_and_select_input.recipeOptions = generate_recipe_options_output.recipeOptions optionsOutput,
       validate_and_select_input.quoteOptions = generate_recipe_options_output.quoteOptions optionsOutput,
       validate_and_select_input.seenRecipeTitles = generate_recipe_input.seenRecipeTitles flowInput,
       validate_and_select_input.seenQuotes = generate_recipe_input.seenQuotes flowInput \<rparr>"




definition selectStep ::
  "genkit \<Rightarrow> generate_recipe_input \<Rightarrow> generate_recipe_options_output
     \<Rightarrow> (recipe_option option \<times> quote_option option) option" where
  "selectStep ai flowInput optionsOutput =
     (case validateAndSelectPrompt ai (selectionInput flowInput optionsOutput) of
        Inr None \<Rightarrow> None
      | Inr (Some output) \<Rightarrow> Some (Some (selectedRecipe output), Some (selectedQuote output))
      | Inl e \<Rightarrow>
          Some (index0 (generate_recipe_options_output.recipeOptions optionsOutput),
                index0 (generate_recipe_options_output.quoteOptions optionsOutput)))"

text \<open>
  Step 3. One request, inside one \<open>try\<close>; reading \<open>recipeName\<close> of an undefined
  recipe throws inside the same \<open>try\<close>.
\<close>

definition recipeImagePrompt :: "recipe_option \<Rightarrow> string" where
  "recipeImagePrompt r = ''Generate a photorealistic image of '' @ recipe_option.recipeName r"

definition imageStep :: "genkit \<Rightarrow> recipe_option option \<Rightarrow> media option" where
  "imageStep ai sel =
     (case sel of
        None \<Rightarrow> None
      | Some r \<Rightarrow>
          (case generate ai IMAGE_MODEL (recipeImagePrompt r) 1 of
             Inr m \<Rightarrow> m
           | Inl e \<Rightarrow> None))"

text \<open>Step 4. The object literal reads the fields of both selections.\<close>

definition combineStep ::
  "recipe_option option \<Rightarrow> quote_option option \<Rightarrow> media option \<Rightarrow> error + generate_recipe_output option" where
  "combineStep sel selq m =
     (case sel of
        None \<Rightarrow> Inl (Error ''TypeError'')
      | Some r \<Rightarrow>
          (case selq of
             None \<Rightarrow> Inl (Error ''TypeError'')
           | Some q \<Rightarrow>
               Inr (Some \<lparr> generate_recipe_output.recipeName = recipe_option.recipeName r,
                           generate_recipe_output.description = recipe_option.description r,
                           generate_recipe_output.photoDataUri = url_or_empty m,
                           generate_recipe_output.instructions = recipe_option.instructions r,
                           generate_recipe_output.ingredientList = recipe_option.ingredientList r,
                           generate_recipe_output.missingIngredients = recipe_option.missingIngredients r,
                           generate_recipe_output.nutritionalInformation = recipe_option.nutritionalInformation r,
                           generate_recipe_output.quote = quote_option.quote q,
                           generate_recipe_output.quoteAuthor = quote_option.quoteAuthor q \<rparr>)))"

definition generateRecipeFlow :: "genkit \<Rightarrow> generate_recipe_input \<Rightarrow> error + generate_recipe_output option" where
  "generateRecipeFlow ai flowInput =
     (case generateOptionsPrompt ai flowInput of
        Inl (Error msg) \<Rightarrow>
          (if includes_str msg ''SAFETY'' then Inl (Error ''SAFETY_BLOCK'') else Inr None)
      | Inr None \<Rightarrow> Inr None
      | Inr (Some optionsOutput) \<Rightarrow>
          (case selectStep ai flowInput optionsOutput of
             None \<Rightarrow> Inr None
           | Some (sel, selq) \<Rightarrow> combineStep sel selq (imageStep ai sel)))"

definition generateRecipe :: "genkit \<Rightarrow> generate_recipe_input \<Rightarrow> string \<Rightarrow> error + generate_recipe_output option" where
  "generateRecipe ai input key =
     (if key = [] then Inl (Error ''API Key is required for this operation.'')
      else generateRecipeFlow ai input)"


subsection \<open>culinaryPassportFlow (generate-culinary-passport.ts)\<close>

definition createFallbackPassport :: "string \<Rightarrow> culinary_passport" where
  "createFallbackPassport dest =
     \<lparr> culinary_passport.recommendations = [],
       culinary_passport.chefCardMessage =
         ''We'' @ [CHR 0x27] @ ''re sorry, we couldn'' @ [CHR 0x27] @ ''t generate a culinary passport for ''
           @ dest @ '' at this moment due to high demand. Please try again in a few minutes.'',
       chefCardAudioUri = [] \<rparr>"

definition maxTextAttempts :: nat where
  "maxTextAttempts = 3"

definition maxAttempts :: nat where
  "maxAttempts = 3"

text \<open>
  Step 1, the \<open>while\<close> loop over the text prompt. The loop ends in one of three ways:
  an exception leaves the flow (\<open>Inl\<close>), a \<open>return\<close> inside the loop leaves the flow
  with a passport (\<open>Inr (Inl p)\<close>), or the loop condition fails with the current
  \<open>textOutput\<close> (\<open>Inr (Inr t)\<close>).
\<close>

function textLoop ::
  "genkit \<Rightarrow> generate_culinary_passport_input \<Rightarrow> culinary_passport_text option \<Rightarrow> nat
     \<Rightarrow> error + (culinary_passport + culinary_passport_text option)" where
  "textLoop ai flowInput textOutput textAttempts =
     (if textOutput = None \<and> textAttempts < maxTextAttempts then
        (case passportTextPrompt ai flowInput (Suc textAttempts) of
           Inr output \<Rightarrow> textLoop ai flowInput output (Suc textAttempts)
         | Inl (Error msg) \<Rightarrow>
             (if includes_str msg ''SAFETY'' then Inl (Error ''SAFETY_BLOCK'')
              else if maxTextAttempts \<le> Suc textAttempts
                then Inr (Inl (createFallbackPassport (destination flowInput)))
              else textLoop ai flowInput textOutput (Suc textAttempts)))
      else Inr (Inr textOutput))"
  by pat_completeness auto
termination
  by (relation "measure (\<lambda>(ai, flowInput, textOutput, textAttempts). maxTextAttempts - textAttempts)") auto

text \<open>
  Step 2, the loop of one image promise. It returns the final \<open>media\<close> together with
  the final value of \<open>attempts\<close>, the number of requests it issued.
\<close>

function imageLoop :: "genkit \<Rightarrow> string \<Rightarrow> media option \<Rightarrow> nat \<Rightarrow> media option \<times> nat" where
  "imageLoop ai prompt m attempts =
     (if m = None \<and> attempts < maxAttempts then
        (case generate ai IMAGE_MODEL prompt (Suc attempts) of
           Inr r \<Rightarrow> imageLoop ai prompt r (Suc attempts)
         | Inl e \<Rightarrow> imageLoop ai prompt m (Suc attempts))
      else (m, attempts))"
  by pat_completeness auto
termination
  by (relation "measure (\<lambda>(ai, prompt, m, attempts). maxAttempts - attempts)") auto

definition imagePrompt :: "generate_culinary_passport_input \<Rightarrow> dish_recommendation \<Rightarrow> string" where
  "imagePrompt flowInput rec =
     ''A photorealistic, appetizing photo of '' @ dishNameEnglish rec
       @ '', a popular dish from '' @ destination flowInput @ ''.''"

definition imagePromise :: "genkit \<Rightarrow> generate_culinary_passport_input \<Rightarrow> dish_recommendation \<Rightarrow> dish_with_photo" where
  "imagePromise ai flowInput rec =
     (let (m, attempts) = imageLoop ai (imagePrompt flowInput rec) None 0
      in \<lparr> dishNameEnglish = dishNameEnglish rec,
           dishNameLocal = dishNameLocal rec,
           dish_recommendation.description = dish_recommendation.description rec,
           dish_with_photo.photoDataUri = url_or_empty m \<rparr>)"

text \<open>
  The loop of the audio promise: \<open>Inl s\<close> when the \<open>catch\<close> block returns \<open>s\<close> from
  the promise, \<open>Inr m\<close> when the loop condition fails with \<open>media = m\<close>.
\<close>

function audioLoop :: "genkit \<Rightarrow> string \<Rightarrow> media option \<Rightarrow> nat \<Rightarrow> string + media option" where
  "audioLoop ai prompt m attempts =
     (if m = None \<and> attempts < maxAttempts then
        (case generate ai TTS_MODEL prompt (Suc attempts) of
           Inr r \<Rightarrow> audioLoop ai prompt r (Suc attempts)
         | Inl e \<Rightarrow>
             (if maxAttempts \<le> Suc attempts then Inl []
              else audioLoop ai prompt m (Suc attempts)))
      else Inr m)"
  by pat_completeness auto
termination
  by (relation "measure (\<lambda>(ai, prompt, m, attempts). maxAttempts - attempts)") auto

text \<open>\<open>s.substring(s.indexOf(',') + 1)\<close>: the whole text when there is no comma.\<close>

definition afterComma :: "string \<Rightarrow> string" where
  "afterComma s =
     (case dropWhile (\<lambda>c. c \<noteq> CHR '','') s of [] \<Rightarrow> s | c # rest \<Rightarrow> rest)"

definition audioPromise :: "genkit \<Rightarrow> culinary_passport_text \<Rightarrow> error + string" where
  "audioPromise ai textOutput =
     (if culinary_passport_text.chefCardMessage textOutput = [] then Inr []
      else
        (case audioLoop ai (culinary_passport_text.chefCardMessage textOutput) None 0 of
           Inl s \<Rightarrow> Inr s
         | Inr None \<Rightarrow> Inr []
         | Inr (Some x) \<Rightarrow>
             (if url x = [] then Inr []
              else
                (case toWav ai (afterComma (url x)) of
                   Inl e \<Rightarrow> Inl e
                 | Inr wavBase64 \<Rightarrow> Inr (''data:audio/wav;base64,'' @ wavBase64)))))"

definition culinaryPassportFlow :: "genkit \<Rightarrow> generate_culinary_passport_input \<Rightarrow> error + culinary_passport" where
  "culinaryPassportFlow ai flowInput =
     (case textLoop ai flowInput None 0 of
        Inl e \<Rightarrow> Inl e
      | Inr (Inl fallback) \<Rightarrow> Inr fallback
      | Inr (Inr None) \<Rightarrow> Inr (createFallbackPassport (destination flowInput))
      | Inr (Inr (Some textOutput)) \<Rightarrow>
          (case audioPromise ai textOutput of
             Inl e \<Rightarrow> Inl e
           | Inr audioUri \<Rightarrow>
               Inr \<lparr> culinary_passport.recommendations =
                       map (imagePromise ai flowInput) (culinary_passport_text.recommendations textOutput),
                     culinary_passport.chefCardMessage = culinary_passport_text.chefCardMessage textOutput,
                     chefCardAudioUri = audioUri \<rparr>))"

definition generateCulinaryPassport ::
  "genkit \<Rightarrow> generate_culinary_passport_input \<Rightarrow> string \<Rightarrow> error + culinary_passport" where
  "generateCulinaryPassport ai input key =
     (if key = [] then Inl (Error ''API Key is required for this operation.'')
      else culinaryPassportFlow ai input)"

section \<open>The CAPTCHA (generate-captcha.ts)\<close>

text \<open>\<open>String(n)\<close> for an integer \<open>n\<close>: decimal digits, with a minus sign below zero.\<close>

definition digit :: "nat \<Rightarrow> char" where
  "digit n = ''0123456789'' ! n"

fun String_of_nat :: "nat \<Rightarrow> string" where
  "String_of_nat n =
     (if n < 10 then [digit n]
      else String_of_nat (n div 10) @ [digit (n mod 10)])"

definition String_of_int :: "int \<Rightarrow> string" where
  "String_of_int i = (if i < 0 then ''-'' @ String_of_nat (nat (- i)) else String_of_nat (nat i))"

record captcha =
  question :: string
  answer :: string

definition operations :: "string list" where
  "operations = [''+'', ''-'', ''*'']"

fun index_opt :: "'a list \<Rightarrow> nat \<Rightarrow> 'a option" where
  "index_opt [] i = None"
| "index_opt (x # xs) 0 = Some x"
| "index_opt (x # xs) (Suc i) = index_opt xs i"

text \<open>A template literal prints \<open>undefined\<close> for an undefined value.\<close>

definition template_of :: "string option \<Rightarrow> string" where
  "template_of v = (case v of None \<Rightarrow> ''undefined'' | Some s \<Rightarrow> s)"

text \<open>
  The three draws of \<open>Math.random\<close> enter as the values of the three floor expressions:
  \<open>f1\<close> and \<open>f2\<close> are \<open>Math.floor(Math.random() * 10)\<close>, and \<open>f3\<close> is
  \<open>Math.floor(Math.random() * operations.length)\<close>. The \<open>switch\<close> has no default: an
  operation that matches no case leaves \<open>answer\<close> undefined.
\<close>

definition generateMathProblem :: "nat \<Rightarrow> nat \<Rightarrow> nat \<Rightarrow> captcha" where
  "generateMathProblem f1 f2 f3 =
     (let num1 = int f1 + 1;
          num2 = int f2 + 1;
          operation = index_opt operations f3;
          question0 = ''What is '' @ String_of_int num1 @ '' '' @ template_of operation @ '' ''
                        @ String_of_int num2 @ ''?''
      in if operation = Some ''+'' then
           \<lparr> question = question0, answer = String_of_int (num1 + num2) \<rparr>
         else if operation = Some ''-'' then
           (if num1 < num2 then
              \<lparr> question = ''What is '' @ String_of_int num2 @ '' - '' @ String_of_int num1 @ ''?'',
                answer = String_of_int (num2 - num1) \<rparr>
            else \<lparr> question = question0, answer = String_of_int (num1 - num2) \<rparr>)
         else if operation = Some ''*'' then
           \<lparr> question = question0, answer = String_of_int (num1 * num2) \<rparr>
         else \<lparr> question = question0, answer = ''undefined'' \<rparr>)"

definition generateCaptcha :: "string \<Rightarrow> nat \<Rightarrow> nat \<Rightarrow> nat \<Rightarrow> error + captcha option" where
  "generateCaptcha key f1 f2 f3 =
     (if key = [] then Inl (Error ''API Key is required for this operation.'')
      else
        (let problem = generateMathProblem f1 f2 f3
         in Inr (Some \<lparr> question = question problem, answer = answer problem \<rparr>)))"


section \<open>The recipe form (recipe-generator.tsx)\<close>

text \<open>
  \<open>trim\<close> removes, at both ends, the white space and the line terminators of
  ECMAScript: TAB, VT, FF, the byte order mark \<open>U+FEFF\<close> and the space separators of
  Unicode (\<open>U+0020\<close>, \<open>U+00A0\<close>, \<open>U+1680\<close>, \<open>U+2000\<close> to \<open>U+200A\<close>, \<open>U+202F\<close>,
  \<open>U+205F\<close>, \<open>U+3000\<close>), and LF, CR, \<open>U+2028\<close>, \<open>U+2029\<close>. \<open>split(',')\<close> cuts at
  every comma and gives one piece for a text without comma, the empty text included.
\<close>

definition isWhitespace :: "code_unit \<Rightarrow> bool" where
  "isWhitespace c =
     (c = 0x09 \<or> c = 0x0A \<or> c = 0x0B \<or> c = 0x0C \<or> c = 0x0D \<or> c = 0x20 \<or> c = 0xA0
      \<or> c = 0x1680 \<or> (0x2000 \<le> c \<and> c \<le> 0x200A) \<or> c = 0x2028 \<or> c = 0x2029
      \<or> c = 0x202F \<or> c = 0x205F \<or> c = 0x3000 \<or> c = 0xFEFF)"

definition trim :: "utf16 \<Rightarrow> utf16" where
  "trim s = rev (dropWhile isWhitespace (rev (dropWhile isWhitespace s)))"

definition COMMA :: code_unit where
  "COMMA = 0x2C"

fun split :: "'a \<Rightarrow> 'a list \<Rightarrow> 'a list list" where
  "split sep [] = [[]]"
| "split sep (c # cs) =
     (if c = sep then [] # split sep cs
      else (case split sep cs of [] \<Rightarrow> [[c]] | p # ps \<Rightarrow> (c # p) # ps))"

text \<open>Truthiness of an optional string: \<open>undefined\<close>, \<open>null\<close> and \<open>''\<close> are falsy.\<close>

definition truthy :: "'a list option \<Rightarrow> bool" where
  "truthy v = (case v of None \<Rightarrow> False | Some s \<Rightarrow> s \<noteq> [])"

record recipe_form_values =
  mood :: "nat list"
  duration :: "string option"
  dislikedIngredients :: "utf16 option"
  availableIngredients :: "string list"
  additionalIngredients :: "utf16 option"
  photo :: "string option"

definition moodMap :: "nat \<Rightarrow> string option" where
  "moodMap n =
     (if n = 0 then Some ''Comforting'' else if n = 1 then Some ''Cozy''
      else if n = 2 then Some ''Happy'' else if n = 3 then Some ''Adventurous''
      else if n = 4 then Some ''Energized'' else if n = 5 then Some ''Romantic''
      else if n = 6 then Some ''Celebratory'' else if n = 7 then Some ''Healthy''
      else None)"

definition INGREDIENT_MESSAGE :: string where
  "INGREDIENT_MESSAGE = ''Please provide at least one ingredient via photo, checklist, or text input.''"

text \<open>
  The callback of \<open>superRefine\<close>: the issue it adds, as the path and the message, or
  nothing.
\<close>

definition superRefine :: "recipe_form_values \<Rightarrow> (string \<times> string) option" where
  "superRefine data =
     (if recipe_form_values.availableIngredients data = []
         \<and> (\<not> truthy (recipe_form_values.additionalIngredients data)
              \<or> trim (case recipe_form_values.additionalIngredients data of Some s \<Rightarrow> s | None \<Rightarrow> []) = [])
         \<and> \<not> truthy (photo data)
      then Some (''availableIngredients'', INGREDIENT_MESSAGE)
      else None)"

record toast_props =
  variant :: "string option"
  title :: string
  description :: string

text \<open>
  The state of the component: its three \<open>useState\<close> cells, the errors of the form by
  field name (the type and the message), the toasts shown so far, and the calls of the
  server action \<open>generateRecipe\<close> made so far, each with its input and API key.
\<close>

record recipe_generator =
  recipe :: "generate_recipe_output option"
  isLoading :: bool
  ingredientPhoto :: "string option"
  formErrors :: "string \<rightharpoonup> string \<times> string"
  toasts :: "toast_props list"
  generateRecipeCalls :: "(generate_recipe_input \<times> string) list"

definition destructive :: "string \<Rightarrow> string \<Rightarrow> toast_props" where
  "destructive t d = \<lparr> variant = Some ''destructive'', title = t, toast_props.description = d \<rparr>"

definition splitIngredients :: "utf16 option \<Rightarrow> utf16 list" where
  "splitIngredients v =
     (case v of
        None \<Rightarrow> []
      | Some s \<Rightarrow> (if s \<noteq> [] then filter (\<lambda>x. x \<noteq> []) (map trim (split COMMA s)) else []))"

definition recipeRequest :: "recipe_form_values \<Rightarrow> recipe_generator \<Rightarrow> app_state \<Rightarrow> generate_recipe_input" where
  "recipeRequest data c ctx =
     \<lparr> generate_recipe_input.mood = Option.bind (index0 (recipe_form_values.mood data)) moodMap,
       generate_recipe_input.duration = recipe_form_values.duration data,
       vegetarian = True,
       generate_recipe_input.dislikedIngredients = splitIngredients (recipe_form_values.dislikedIngredients data),
       generate_recipe_input.availableIngredients = recipe_form_values.availableIngredients data,
       generate_recipe_input.additionalIngredients = splitIngredients (recipe_form_values.additionalIngredients data),
       generate_recipe_input.photoDataUri = (if truthy (ingredientPhoto c) then ingredientPhoto c else None),
       generate_recipe_input.seenRecipeTitles = Some (app_state.seenRecipeTitles ctx),
       generate_recipe_input.seenQuotes = Some (app_state.seenQuotes ctx) \<rparr>"

text \<open>
  \<open>onSubmit\<close>, with the server action as the parameter \<open>gen\<close>. The \<open>finally\<close> block
  clears \<open>isLoading\<close> on each of the three ways out of the \<open>try\<close>.
\<close>

definition onSubmit ::
  "(generate_recipe_input \<Rightarrow> string \<Rightarrow> error + generate_recipe_output option)
     \<Rightarrow> recipe_form_values \<Rightarrow> recipe_generator \<times> app_state \<Rightarrow> recipe_generator \<times> app_state" where
  "onSubmit gen data st =
     (let c = fst st; ctx = snd st in
      if recipe_form_values.availableIngredients data = []
         \<and> (\<not> truthy (recipe_form_values.additionalIngredients data)
              \<or> trim (case recipe_form_values.additionalIngredients data of Some s \<Rightarrow> s | None \<Rightarrow> []) = [])
         \<and> \<not> truthy (ingredientPhoto c)
      then (c\<lparr> formErrors := (formErrors c)(''availableIngredients'' \<mapsto> (''manual'', INGREDIENT_MESSAGE)) \<rparr>, ctx)
      else
        (case apiKey ctx of
           None \<Rightarrow>
             (c\<lparr> toasts := toasts c @ [destructive ''API Key is missing.''
                                         ''Please provide your API key to generate a recipe.''] \<rparr>, ctx)
         | Some k \<Rightarrow>
             (if k = [] then
                (c\<lparr> toasts := toasts c @ [destructive ''API Key is missing.''
                                            ''Please provide your API key to generate a recipe.''] \<rparr>, ctx)
              else
                (let c1 = c\<lparr> isLoading := True, recipe := None,
                             generateRecipeCalls := generateRecipeCalls c @ [(recipeRequest data c ctx, k)] \<rparr>
                 in case gen (recipeRequest data c ctx) k of
                      Inr (Some result) \<Rightarrow>
                        (c1\<lparr> recipe := Some result, isLoading := False \<rparr>,
                         addSeenRecipeTitle (generate_recipe_output.recipeName result)
                           (addSeenQuote (generate_recipe_output.quote result) ctx))
                    | Inr None \<Rightarrow>
                        (c1\<lparr> toasts := toasts c1 @ [destructive ''Generation Failed''
                              ''The AI model seems to be overloaded. Please try again in a few minutes.''],
                             isLoading := False \<rparr>, ctx)
                    | Inl (Error msg) \<Rightarrow>
                        (if msg = ''SAFETY_BLOCK'' then
                           (c1\<lparr> toasts := toasts c1 @ [destructive ''Unsafe Ingredients Detected''
                                 (''I'' @ [CHR 0x27] @ ''m sorry, but I can'' @ [CHR 0x27]
                                    @ ''t create a recipe with those ingredients. Let'' @ [CHR 0x27]
                                    @ ''s stick to safe and edible items!'')],
                                isLoading := False \<rparr>, ctx)
                         else
                           (c1\<lparr> toasts := toasts c1 @ [destructive ''An unexpected error occurred.''
                                 ''Failed to generate a recipe. Your API key might be invalid or the service may be temporarily down.''],
                                isLoading := False \<rparr>, ctx))))))"

section \<open>The shopping-list download (recipe-generator.tsx, weekly-plan-generator.tsx)\<close>

text \<open>
  A JavaScript \<open>Set\<close> keeps its elements in insertion order and ignores the insertion
  of an element it holds: it is the list of its elements in that order. \<open>new Set(xs)\<close>
  adds the elements of \<open>xs\<close> from left to right, and the spread \<open>[...s]\<close> reads the
  list back.
\<close>

definition Set_add :: "'a list \<Rightarrow> 'a \<Rightarrow> 'a list" where
  "Set_add s x = (if x \<in> set s then s else s @ [x])"

definition new_Set :: "'a list \<Rightarrow> 'a list" where
  "new_Set xs = foldl Set_add [] xs"

fun join :: "string \<Rightarrow> string list \<Rightarrow> string" where
  "join sep [] = []"
| "join sep [x] = x"
| "join sep (x # y # ys) = x @ sep @ join sep (y # ys)"

record download =
  fileName :: string
  blobType :: string
  textContent :: string

definition handleDownloadShoppingList :: "string list \<Rightarrow> download" where
  "handleDownloadShoppingList ingredients =
     (let uniqueIngredients = new_Set ingredients
      in \<lparr> fileName = ''shopping-list.txt'', blobType = ''text/plain'',
           textContent = join [CHR 0x0A] uniqueIngredients \<rparr>)"

definition handleDownloadWeeklyShoppingList :: "string list \<Rightarrow> download" where
  "handleDownloadWeeklyShoppingList ingredients =
     (let uniqueIngredients = new_Set ingredients
      in \<lparr> fileName = ''weekly-shopping-list.txt'', blobType = ''text/plain'',
           textContent = join [CHR 0x0A] uniqueIngredients \<rparr>)"

text \<open>
  The specification's reading of the de-duplicated list: the first occurrence of each
  element is kept, in the order of the first occurrences.
\<close>

fun first_occurrences :: "'a list \<Rightarrow> 'a list" where
  "first_occurrences [] = []"
| "first_occurrences (x # xs) = x # first_occurrences (filter (\<lambda>y. y \<noteq> x) xs)"


section \<open>Predicates of the statements and sample inputs\<close>

text \<open>A request for media failed: it threw, or its response carries no media.\<close>

definition gen_failed :: "error + media option \<Rightarrow> bool" where
  "gen_failed r = (case r of Inl e \<Rightarrow> True | Inr None \<Rightarrow> True | Inr (Some m) \<Rightarrow> False)"

text \<open>The photo, the name and the quote of the recipe a call returned, if it returned one.\<close>

definition photoOf :: "error + generate_recipe_output option \<Rightarrow> string option" where
  "photoOf r = (case r of Inr (Some out) \<Rightarrow> Some (generate_recipe_output.photoDataUri out) | Inr None \<Rightarrow> None | Inl e \<Rightarrow> None)"

definition nameOf :: "error + generate_recipe_output option \<Rightarrow> string option" where
  "nameOf r = (case r of Inr (Some out) \<Rightarrow> Some (generate_recipe_output.recipeName out) | Inr None \<Rightarrow> None | Inl e \<Rightarrow> None)"

definition quoteOf :: "error + generate_recipe_output option \<Rightarrow> string option" where
  "quoteOf r = (case r of Inr (Some out) \<Rightarrow> Some (generate_recipe_output.quote out) | Inr None \<Rightarrow> None | Inl e \<Rightarrow> None)"

text \<open>The photos and the audio of the passport a call returned, if it returned one.\<close>

definition photosOf :: "error + culinary_passport \<Rightarrow> string list option" where
  "photosOf r = (case r of Inr p \<Rightarrow> Some (map dish_with_photo.photoDataUri (culinary_passport.recommendations p)) | Inl e \<Rightarrow> None)"

definition audioOf :: "error + culinary_passport \<Rightarrow> string option" where
  "audioOf r = (case r of Inr p \<Rightarrow> Some (chefCardAudioUri p) | Inl e \<Rightarrow> None)"

text \<open>The value of \<open>a op b\<close> for the three operations of the CAPTCHA.\<close>

definition evalOperation :: "string \<Rightarrow> int \<Rightarrow> int \<Rightarrow> int option" where
  "evalOperation op a b =
     (if op = ''+'' then Some (a + b) else if op = ''-'' then Some (a - b)
      else if op = ''*'' then Some (a * b) else None)"

text \<open>
  The operands as the question shows them: swapped for a subtraction whose first operand
  is the smaller one.
\<close>

definition shownOperands :: "nat \<Rightarrow> nat \<Rightarrow> nat \<Rightarrow> int \<times> int" where
  "shownOperands f1 f2 f3 =
     (if index_opt operations f3 = Some ''-'' \<and> int f1 + 1 < int f2 + 1
      then (int f2 + 1, int f1 + 1) else (int f1 + 1, int f2 + 1))"

definition sampleRecipe :: "string \<Rightarrow> recipe_option" where
  "sampleRecipe n =
     \<lparr> recipe_option.recipeName = n, recipe_option.description = ''A cozy bowl.'',
       recipe_option.instructions = ''Simmer.'', recipe_option.ingredientList = [''Rice'', ''Spinach''],
       recipe_option.missingIngredients = [], recipe_option.nutritionalInformation = ''200 kcal'' \<rparr>"

definition sampleQuote :: "string \<Rightarrow> quote_option" where
  "sampleQuote q = \<lparr> quote_option.quote = q, quote_option.quoteAuthor = ''Anon'' \<rparr>"

definition sampleOptions :: generate_recipe_options_output where
  "sampleOptions =
     \<lparr> generate_recipe_options_output.recipeOptions = map sampleRecipe [''R0'', ''R1'', ''R2'', ''R3'', ''R4''],
       generate_recipe_options_output.quoteOptions = map sampleQuote [''Q0'', ''Q1'', ''Q2'', ''Q3'', ''Q4''] \<rparr>"

text \<open>A request whose ledger holds the name of the first candidate and its quote.\<close>

definition sampleInput :: generate_recipe_input where
  "sampleInput =
     \<lparr> generate_recipe_input.mood = Some ''Cozy'', generate_recipe_input.duration = Some ''30'',
       vegetarian = True, generate_recipe_input.dislikedIngredients = [],
       generate_recipe_input.availableIngredients = [''Rice'', ''Spinach''],
       generate_recipe_input.additionalIngredients = [], generate_recipe_input.photoDataUri = None,
       generate_recipe_input.seenRecipeTitles = Some [''R0''],
       generate_recipe_input.seenQuotes = Some [''Q0''] \<rparr>"

definition sampleDish :: "string \<Rightarrow> dish_recommendation" where
  "sampleDish n = \<lparr> dishNameEnglish = n, dishNameLocal = n, dish_recommendation.description = ''Local dish.'' \<rparr>"

definition sampleText :: culinary_passport_text where
  "sampleText =
     \<lparr> culinary_passport_text.recommendations = [sampleDish ''Pho'', sampleDish ''Banh Mi''],
       culinary_passport_text.chefCardMessage = ''Toi an chay.'' \<rparr>"

definition samplePassportInput :: generate_culinary_passport_input where
  "samplePassportInput =
     \<lparr> destination = ''Hanoi'', dietaryNeeds = ''Vegetarian'', preferences = None, seenDishes = None \<rparr>"

definition sampleMedia :: media where
  "sampleMedia = \<lparr> url = ''data:image/png;base64,AAAA'' \<rparr>"

text \<open>
  A provider in trouble: stage 1 answers, the stage-2 call throws, and every media
  request throws the first time and answers from the second request on.
\<close>

definition flakyAi :: genkit where
  "flakyAi =
     \<lparr> generateOptionsPrompt = (\<lambda>i. Inr (Some sampleOptions)),
       validateAndSelectPrompt = (\<lambda>i. Inl (Error ''503 Service Unavailable'')),
       passportTextPrompt = (\<lambda>i n. Inr (Some sampleText)),
       generate = (\<lambda>model prompt n. if n = 1 then Inl (Error ''503 Service Unavailable'') else Inr (Some sampleMedia)),
       toWav = (\<lambda>pcm. Inr pcm) \<rparr>"

text \<open>The same provider when every media request throws.\<close>

definition deadMediaAi :: genkit where
  "deadMediaAi = flakyAi\<lparr> generate := (\<lambda>model prompt n. Inl (Error ''503 Service Unavailable'')) \<rparr>"

text \<open>The same provider when every media request answers with the image.\<close>

definition healthyMediaAi :: genkit where
  "healthyMediaAi = flakyAi\<lparr> generate := (\<lambda>model prompt n. Inr (Some sampleMedia)) \<rparr>"



text \<open>The same provider when the stage-2 call selects the third recipe and the second quote.\<close>

definition selectingAi :: genkit where
  "selectingAi =
     flakyAi\<lparr> validateAndSelectPrompt :=
       (\<lambda>i. Inr (Some \<lparr> selectedRecipe = sampleRecipe ''R2'', selectedQuote = sampleQuote ''Q1'' \<rparr>)) \<rparr>"

definition emptyForm :: recipe_form_values where
  "emptyForm =
     \<lparr> recipe_form_values.mood = [1], recipe_form_values.duration = Some ''30'',
       recipe_form_values.dislikedIngredients = Some [],
       recipe_form_values.availableIngredients = [],
       recipe_form_values.additionalIngredients = Some [0x20, 0xA0, 0x3000], photo = None \<rparr>"

definition freshGenerator :: recipe_generator where
  "freshGenerator =
     \<lparr> recipe = None, isLoading = False, ingredientPhoto = None, formErrors = Map.empty,
       toasts = [], generateRecipeCalls = [] \<rparr>"


text \<open>
  The equations of the loops and of \<open>String_of_nat\<close> rewrite a call into itself: they
  are applied one step at a time.
\<close>

declare textLoop.simps [simp del]
declare imageLoop.simps [simp del]
declare audioLoop.simps [simp del]
declare String_of_nat.simps [simp del]

section \<open>Properties of the history ledger\<close>

lemma addSeenItem_length: "length (fst (addSeenItem key item ls)) \<le> MAX_SEEN_ITEMS"
  by (simp add: addSeenItem_def MAX_SEEN_ITEMS_def Let_def split: sum.splits json.splits)

lemma addSeenItem_front: "take 1 (fst (addSeenItem key item ls)) = [item]"
  by (simp add: addSeenItem_def MAX_SEEN_ITEMS_def Let_def take_Cons' split: sum.splits json.splits)

lemma addSeenItem_stored:
  "snd (addSeenItem key item ls) key = Some (ArrayJson (fst (addSeenItem key item ls)))"
  by (simp add: addSeenItem_def JSON_stringify_def Let_def split: sum.splits json.splits)

lemma addSeenPassportDishes_stored:
  "localStorage (addSeenPassportDishes dishes dest st) SEEN_PASSPORT_DISHES_KEY
     = Some (ArrayJson (seenPassportDishes (addSeenPassportDishes dishes dest st)))"
  by (simp add: addSeenPassportDishes_def JSON_stringify_def Let_def split: sum.splits json.splits)

text \<open>
  \<open>addSeenPassportDishes\<close> removes from the stored list every key it is about to
  prepend: it keeps a duplicate-free list duplicate-free when the new keys are distinct.
\<close>

lemma addSeenPassportDishes_distinct:
  assumes "distinct (map (passportKey dest) dishes)"
    and "\<And>xs. localStorage st SEEN_PASSPORT_DISHES_KEY = Some (ArrayJson xs) \<Longrightarrow> distinct xs"
  shows "distinct (seenPassportDishes (addSeenPassportDishes dishes dest st))"
proof (cases "parseStoredItems (localStorage st SEEN_PASSPORT_DISHES_KEY)")
  case (Inl e)
  with assms(1) show ?thesis by (simp add: addSeenPassportDishes_def Let_def)
next
  case (Inr j)
  show ?thesis
  proof (cases j)
    case JOther
    with Inr assms(1) show ?thesis by (simp add: addSeenPassportDishes_def Let_def)
  next
    case (JArray xs)
    have "distinct xs"
    proof (cases "localStorage st SEEN_PASSPORT_DISHES_KEY")
      case None
      with Inr JArray show ?thesis by (simp add: parseStoredItems_def)
    next
      case (Some r)
      with Inr JArray assms(2) show ?thesis
        by (cases r) (auto simp: parseStoredItems_def split: if_splits)
    qed
    with assms(1) have app: "distinct (map (passportKey dest) dishes @ filter (\<lambda>d. d \<notin> set (map (passportKey dest) dishes)) xs)"
      by auto
    have eq: "seenPassportDishes (addSeenPassportDishes dishes dest st)
                = take MAX_SEEN_ITEMS (map (passportKey dest) dishes @ filter (\<lambda>d. d \<notin> set (map (passportKey dest) dishes)) xs)"
      using Inr JArray by (simp add: addSeenPassportDishes_def Let_def)
    show ?thesis unfolding eq using app by (rule distinct_take)
  qed
qed

text \<open>
  Claim C1: in every history category, after any sequence of record operations the
  stored list never holds the same key twice; a repeated record of one key leaves at
  most one occurrence of it. \<open>addSeenItem\<close>, which serves the quotes, the recipe
  titles and the weekly-plan titles, prepends without looking for an earlier
  occurrence: recording the quote \<open>q\<close> twice from the empty state stores it twice.
  \<open>addSeenPassportDishes\<close>, on the same two steps, stores its key once.
\<close>

theorem addSeenQuote_repeated_key_is_stored_twice:
  "app_state.seenQuotes (addSeenQuote ''q'' (addSeenQuote ''q'' initialState)) = [''q'', ''q'']
   \<and> localStorage (addSeenQuote ''q'' (addSeenQuote ''q'' initialState)) SEEN_QUOTES_STORAGE_KEY
       = Some (ArrayJson [''q'', ''q''])
   \<and> \<not> distinct (app_state.seenQuotes (addSeenQuote ''q'' (addSeenQuote ''q'' initialState)))
   \<and> seenPassportDishes
        (addSeenPassportDishes [sampleDish ''Pho''] ''Hanoi''
           (addSeenPassportDishes [sampleDish ''Pho''] ''Hanoi'' initialState)) = [''Hanoi|Pho'']"
  by (simp add: addSeenQuote_def addSeenItem_def addSeenPassportDishes_def initialState_def
        parseStoredItems_def JSON_stringify_def MAX_SEEN_ITEMS_def passportKey_def sampleDish_def Let_def)

text \<open>
  Claim C2: for every history category and every starting state, whatever the storage
  holds (a list at or above the cap, a text that is no array, a text that does not
  parse), the list produced by a record has at most 100 entries and the new key is at
  its front; the list is also what storage holds afterwards. The passport category
  records a batch of keys: the batch, of at most 100 dishes, is the front of the list.
\<close>

theorem record_capped_newest_first:
  "length (app_state.seenQuotes (addSeenQuote k st)) \<le> MAX_SEEN_ITEMS
   \<and> take 1 (app_state.seenQuotes (addSeenQuote k st)) = [k]
   \<and> localStorage (addSeenQuote k st) SEEN_QUOTES_STORAGE_KEY
       = Some (ArrayJson (app_state.seenQuotes (addSeenQuote k st)))
   \<and> length (app_state.seenRecipeTitles (addSeenRecipeTitle k st)) \<le> MAX_SEEN_ITEMS
   \<and> take 1 (app_state.seenRecipeTitles (addSeenRecipeTitle k st)) = [k]
   \<and> localStorage (addSeenRecipeTitle k st) SEEN_RECIPES_STORAGE_KEY
       = Some (ArrayJson (app_state.seenRecipeTitles (addSeenRecipeTitle k st)))
   \<and> length (seenWeeklyPlanTitles (addSeenWeeklyPlanTitle k st)) \<le> MAX_SEEN_ITEMS
   \<and> take 1 (seenWeeklyPlanTitles (addSeenWeeklyPlanTitle k st)) = [k]
   \<and> localStorage (addSeenWeeklyPlanTitle k st) SEEN_WEEKLY_PLANS_KEY
       = Some (ArrayJson (seenWeeklyPlanTitles (addSeenWeeklyPlanTitle k st)))
   \<and> (length dishes \<le> MAX_SEEN_ITEMS \<longrightarrow>
        length (seenPassportDishes (addSeenPassportDishes dishes dest st)) \<le> MAX_SEEN_ITEMS
        \<and> take (length dishes) (seenPassportDishes (addSeenPassportDishes dishes dest st))
            = map (passportKey dest) dishes
        \<and> localStorage (addSeenPassportDishes dishes dest st) SEEN_PASSPORT_DISHES_KEY
            = Some (ArrayJson (seenPassportDishes (addSeenPassportDishes dishes dest st))))"
proof -
  have a: "length (app_state.seenQuotes (addSeenQuote k st)) \<le> MAX_SEEN_ITEMS
           \<and> take 1 (app_state.seenQuotes (addSeenQuote k st)) = [k]
           \<and> localStorage (addSeenQuote k st) SEEN_QUOTES_STORAGE_KEY
               = Some (ArrayJson (app_state.seenQuotes (addSeenQuote k st)))"
    using addSeenItem_length [of SEEN_QUOTES_STORAGE_KEY k "localStorage st"]
          addSeenItem_front [of SEEN_QUOTES_STORAGE_KEY k "localStorage st"]
          addSeenItem_stored [of SEEN_QUOTES_STORAGE_KEY k "localStorage st"]
    by (simp add: addSeenQuote_def split_beta)
  have b: "length (app_state.seenRecipeTitles (addSeenRecipeTitle k st)) \<le> MAX_SEEN_ITEMS
           \<and> take 1 (app_state.seenRecipeTitles (addSeenRecipeTitle k st)) = [k]
           \<and> localStorage (addSeenRecipeTitle k st) SEEN_RECIPES_STORAGE_KEY
               = Some (ArrayJson (app_state.seenRecipeTitles (addSeenRecipeTitle k st)))"
    using addSeenItem_length [of SEEN_RECIPES_STORAGE_KEY k "localStorage st"]
          addSeenItem_front [of SEEN_RECIPES_STORAGE_KEY k "localStorage st"]
          addSeenItem_stored [of SEEN_RECIPES_STORAGE_KEY k "localStorage st"]
    by (simp add: addSeenRecipeTitle_def split_beta)
  have c: "length (seenWeeklyPlanTitles (addSeenWeeklyPlanTitle k st)) \<le> MAX_SEEN_ITEMS
           \<and> take 1 (seenWeeklyPlanTitles (addSeenWeeklyPlanTitle k st)) = [k]
           \<and> localStorage (addSeenWeeklyPlanTitle k st) SEEN_WEEKLY_PLANS_KEY
               = Some (ArrayJson (seenWeeklyPlanTitles (addSeenWeeklyPlanTitle k st)))"
    using addSeenItem_length [of SEEN_WEEKLY_PLANS_KEY k "localStorage st"]
          addSeenItem_front [of SEEN_WEEKLY_PLANS_KEY k "localStorage st"]
          addSeenItem_stored [of SEEN_WEEKLY_PLANS_KEY k "localStorage st"]
    by (simp add: addSeenWeeklyPlanTitle_def split_beta)
  have d: "length dishes \<le> MAX_SEEN_ITEMS \<longrightarrow>
        length (seenPassportDishes (addSeenPassportDishes dishes dest st)) \<le> MAX_SEEN_ITEMS
        \<and> take (length dishes) (seenPassportDishes (addSeenPassportDishes dishes dest st))
            = map (passportKey dest) dishes"
    by (auto simp add: addSeenPassportDishes_def Let_def split: sum.splits json.splits)
  from a b c d addSeenPassportDishes_stored [of dishes dest st] show ?thesis by simp
qed

theorem record_capped_newest_first_witness:
  "length [sampleDish ''Pho''] \<le> MAX_SEEN_ITEMS
   \<and> length (seenPassportDishes (addSeenPassportDishes [sampleDish ''Pho''] ''Hanoi'' initialState)) \<le> MAX_SEEN_ITEMS
   \<and> take 1 (seenPassportDishes (addSeenPassportDishes [sampleDish ''Pho''] ''Hanoi'' initialState)) = [''Hanoi|Pho'']
   \<and> take 1 (app_state.seenQuotes (addSeenQuote ''q'' initialState)) = [''q'']"
  using record_capped_newest_first [of "''q''" initialState "[sampleDish ''Pho'']" "''Hanoi''"]
  by (simp add: MAX_SEEN_ITEMS_def passportKey_def sampleDish_def)

section \<open>Properties of the API key and the verification flag\<close>

text \<open>
  Claim C10: \<open>setApiKey(null)\<close> removes the stored key and resets the verification
  flag, persisting \<open>false\<close>; \<open>setApiKey\<close> with a non-null key stores the key and
  leaves the flag and the seen lists unchanged. The test of the source is truthiness,
  so the empty string, which is not null, takes the branch of \<open>null\<close>: the key is
  removed and a verified user loses the flag.
\<close>

theorem setApiKey_empty_string_counterexample:
  "isVerifiedHuman (setVerifiedHuman True initialState) = True
   \<and> isVerifiedHuman (setApiKey (Some []) (setVerifiedHuman True initialState)) = False
   \<and> localStorage (setApiKey (Some []) (setVerifiedHuman True initialState)) API_KEY_STORAGE_KEY = None"
  by (simp add: setApiKey_def setVerifiedHuman_def initialState_def Let_def)

text \<open>
  Claim C10 as amended: \<open>setApiKey\<close> with a non-empty key stores the key and leaves
  the verification flag, the session storage and the four seen lists unchanged;
  \<open>setApiKey\<close> with \<open>null\<close> or with the empty string removes the stored key, sets
  the flag to false and persists \<open>false\<close>, and leaves the four seen lists unchanged.
\<close>

theorem setApiKey_frame:
  "(k \<noteq> [] \<longrightarrow>
      apiKey (setApiKey (Some k) st) = Some k
      \<and> localStorage (setApiKey (Some k) st) = (localStorage st)(API_KEY_STORAGE_KEY \<mapsto> Text k)
      \<and> isVerifiedHuman (setApiKey (Some k) st) = isVerifiedHuman st
      \<and> sessionStorage (setApiKey (Some k) st) = sessionStorage st
      \<and> app_state.seenQuotes (setApiKey (Some k) st) = app_state.seenQuotes st
      \<and> app_state.seenRecipeTitles (setApiKey (Some k) st) = app_state.seenRecipeTitles st
      \<and> seenPassportDishes (setApiKey (Some k) st) = seenPassportDishes st
      \<and> seenWeeklyPlanTitles (setApiKey (Some k) st) = seenWeeklyPlanTitles st)
   \<and> (v = None \<or> v = Some [] \<longrightarrow>
      apiKey (setApiKey v st) = v
      \<and> localStorage (setApiKey v st) = (localStorage st)(API_KEY_STORAGE_KEY := None)
      \<and> isVerifiedHuman (setApiKey v st) = False
      \<and> sessionStorage (setApiKey v st) = (sessionStorage st)(HUMAN_VERIFIED_SESSION_KEY \<mapsto> ''false'')
      \<and> app_state.seenQuotes (setApiKey v st) = app_state.seenQuotes st
      \<and> app_state.seenRecipeTitles (setApiKey v st) = app_state.seenRecipeTitles st
      \<and> seenPassportDishes (setApiKey v st) = seenPassportDishes st
      \<and> seenWeeklyPlanTitles (setApiKey v st) = seenWeeklyPlanTitles st)"
  by (auto simp add: setApiKey_def setVerifiedHuman_def String_of_bool_def Let_def)

theorem setApiKey_frame_witness:
  "''AIza'' \<noteq> []
   \<and> localStorage (setApiKey (Some ''AIza'') (setVerifiedHuman True initialState)) API_KEY_STORAGE_KEY = Some (Text ''AIza'')
   \<and> isVerifiedHuman (setApiKey (Some ''AIza'') (setVerifiedHuman True initialState)) = True
   \<and> isVerifiedHuman (setApiKey None (setVerifiedHuman True initialState)) = False
   \<and> sessionStorage (setApiKey None (setVerifiedHuman True initialState)) HUMAN_VERIFIED_SESSION_KEY = Some ''false''"
  using setApiKey_frame [of "''AIza''" "setVerifiedHuman True initialState" None]
  by (simp add: setVerifiedHuman_def initialState_def)

section \<open>Properties of the shopping-list download\<close>

lemma foldl_Set_add:
  "foldl Set_add acc xs = acc @ first_occurrences (filter (\<lambda>y. y \<notin> set acc) xs)"
proof (induction xs arbitrary: acc)
  case Nil
  show ?case by simp
next
  case (Cons x xs)
  show ?case
  proof (cases "x \<in> set acc")
    case True
    then show ?thesis using Cons.IH [of acc] by (simp add: Set_add_def)
  next
    case False
    have "filter (\<lambda>y. y \<noteq> x) (filter (\<lambda>y. y \<notin> set acc) xs) = filter (\<lambda>y. y \<notin> set (acc @ [x])) xs"
      by (induction xs) auto
    with False show ?thesis using Cons.IH [of "acc @ [x]"] by (simp add: Set_add_def)
  qed
qed

lemma new_Set_first_occurrences: "new_Set xs = first_occurrences xs"
  by (simp add: new_Set_def foldl_Set_add)

lemma set_first_occurrences: "set (first_occurrences xs) = set xs"
  by (induction xs rule: first_occurrences.induct) auto

lemma distinct_first_occurrences: "distinct (first_occurrences xs)"
  by (induction xs rule: first_occurrences.induct) (auto simp: set_first_occurrences)

text \<open>
  Claim C7: for every input list, the text of the downloaded shopping list is the
  de-duplicated list joined with newline characters, where de-duplication keeps exactly
  the first occurrence of each ingredient, in the order of the first occurrences. Both
  handlers, of the recipe page and of the weekly plan, build the same text.
\<close>

theorem download_is_joined_first_occurrences:
  "textContent (handleDownloadShoppingList xs) = join [CHR 0x0A] (first_occurrences xs)
   \<and> textContent (handleDownloadWeeklyShoppingList xs) = join [CHR 0x0A] (first_occurrences xs)
   \<and> distinct (first_occurrences xs) \<and> set (first_occurrences xs) = set xs"
  by (simp add: handleDownloadShoppingList_def handleDownloadWeeklyShoppingList_def
        new_Set_first_occurrences set_first_occurrences distinct_first_occurrences)

theorem download_is_joined_first_occurrences_witness:
  "textContent (handleDownloadShoppingList [''Rice'', ''Tofu'', ''Rice'', ''Lime'', ''Tofu''])
     = ''Rice'' @ [CHR 0x0A] @ ''Tofu'' @ [CHR 0x0A] @ ''Lime''"
  using download_is_joined_first_occurrences [of "[''Rice'', ''Tofu'', ''Rice'', ''Lime'', ''Tofu'']"]
  by simp

section \<open>Properties of the CAPTCHA\<close>

text \<open>
  Claim C9: for every challenge that \<open>generateCaptcha\<close> produces, the answer is the
  decimal text of the value of the expression the question states, and that value is
  never negative: a subtraction whose first operand is the smaller one is shown, and
  computed, with the operands swapped. The draws range over what the floor expressions
  can give: below 10 for the operands, below 3 for the operation.
\<close>

theorem captcha_answer_is_value_of_question:
  assumes "key \<noteq> []" and "f1 < 10" and "f2 < 10" and "f3 < 3"
  shows "\<exists>c op v. generateCaptcha key f1 f2 f3 = Inr (Some c)
           \<and> index_opt operations f3 = Some op
           \<and> question c = ''What is '' @ String_of_int (fst (shownOperands f1 f2 f3)) @ '' '' @ op @ '' ''
                             @ String_of_int (snd (shownOperands f1 f2 f3)) @ ''?''
           \<and> evalOperation op (fst (shownOperands f1 f2 f3)) (snd (shownOperands f1 f2 f3)) = Some v
           \<and> 0 \<le> v
           \<and> answer c = String_of_int v"
proof -
  from \<open>f3 < 3\<close> have "f3 = 0 \<or> f3 = 1 \<or> f3 = 2" by arith
  then show ?thesis
  proof (elim disjE)
    assume "f3 = 0"
    with assms(1) show ?thesis
      by (simp add: generateCaptcha_def generateMathProblem_def operations_def shownOperands_def
            evalOperation_def template_of_def Let_def)
  next
    assume "f3 = 1"
    with assms(1) show ?thesis
      by (simp add: generateCaptcha_def generateMathProblem_def operations_def shownOperands_def
            evalOperation_def template_of_def Let_def)
  next
    assume "f3 = 2"
    with assms(1) show ?thesis
      by (simp add: generateCaptcha_def generateMathProblem_def operations_def shownOperands_def
            evalOperation_def template_of_def Let_def numeral_2_eq_2)
  qed
qed

theorem captcha_answer_is_value_of_question_witness:
  "''k'' \<noteq> [] \<and> (2::nat) < 10 \<and> (6::nat) < 10 \<and> (1::nat) < 3
   \<and> (\<exists>c. generateCaptcha ''k'' 2 6 1 = Inr (Some c)
          \<and> question c = ''What is 7 - 3?'' \<and> answer c = ''4'')"
  using captcha_answer_is_value_of_question [of "''k''" 2 6 1]
  by (auto simp add: operations_def shownOperands_def evalOperation_def String_of_int_def digit_def
        String_of_nat.simps)

section \<open>Properties of the recipe form\<close>

lemma trim_all_whitespace:
  assumes "\<forall>c\<in>set s. isWhitespace c"
  shows "trim s = []"
proof -
  from assms have d: "dropWhile isWhitespace s = []" by simp
  show ?thesis unfolding trim_def d by simp
qed

text \<open>Conversely, a text that \<open>trim\<close> empties holds white space only.\<close>

lemma trim_empty_only_whitespace:
  assumes "trim s = []"
  shows "\<forall>c\<in>set s. isWhitespace c"
proof (rule ccontr)
  assume "\<not> (\<forall>c\<in>set s. isWhitespace c)"
  then have ne: "dropWhile isWhitespace s \<noteq> []" by simp
  then have "\<not> isWhitespace (hd (dropWhile isWhitespace s))" by (rule hd_dropWhile)
  moreover have "hd (dropWhile isWhitespace s) \<in> set (rev (dropWhile isWhitespace s))"
    using ne by simp
  ultimately have "dropWhile isWhitespace (rev (dropWhile isWhitespace s)) \<noteq> []"
    by (auto simp del: set_rev)
  with assms show False by (simp add: trim_def)
qed

lemma blank_additional:
  assumes "v = None \<or> (\<exists>s. v = Some s \<and> (\<forall>c\<in>set s. isWhitespace c))"
  shows "\<not> truthy v \<or> trim (case v of Some s \<Rightarrow> s | None \<Rightarrow> []) = []"
  using assms by (auto simp: truthy_def trim_all_whitespace)

text \<open>
  Claim C6: a submission of the recipe form with an empty checklist, a free-text field
  that is absent, empty or made of white space only, and no uploaded photo is blocked:
  \<open>onSubmit\<close> sets an error on the field \<open>availableIngredients\<close> and returns; it
  calls the server action not at all and changes nothing else, whatever the server
  action would answer. White space is every character that \<open>trim\<close> removes in
  JavaScript, the no-break space and the other spaces of Unicode included.
\<close>

theorem onSubmit_blocks_without_ingredient_signal:
  assumes "recipe_form_values.availableIngredients data = []"
    and "recipe_form_values.additionalIngredients data = None
         \<or> (\<exists>s. recipe_form_values.additionalIngredients data = Some s \<and> (\<forall>c\<in>set s. isWhitespace c))"
    and "\<not> truthy (ingredientPhoto c)"
  shows "formErrors (fst (onSubmit gen data (c, ctx))) ''availableIngredients'' = Some (''manual'', INGREDIENT_MESSAGE)
         \<and> generateRecipeCalls (fst (onSubmit gen data (c, ctx))) = generateRecipeCalls c
         \<and> recipe (fst (onSubmit gen data (c, ctx))) = recipe c
         \<and> isLoading (fst (onSubmit gen data (c, ctx))) = isLoading c
         \<and> toasts (fst (onSubmit gen data (c, ctx))) = toasts c
         \<and> snd (onSubmit gen data (c, ctx)) = ctx"
proof -
  have blank: "\<not> truthy (recipe_form_values.additionalIngredients data)
               \<or> trim (case recipe_form_values.additionalIngredients data of Some s \<Rightarrow> s | None \<Rightarrow> []) = []"
    using assms(2) by (rule blank_additional)
  have "onSubmit gen data (c, ctx)
          = (c\<lparr> formErrors := (formErrors c)(''availableIngredients'' \<mapsto> (''manual'', INGREDIENT_MESSAGE)) \<rparr>, ctx)"
    using assms(1) assms(3) blank by (simp add: onSubmit_def Let_def)
  then show ?thesis by simp
qed

theorem onSubmit_blocks_without_ingredient_signal_witness:
  "recipe_form_values.availableIngredients emptyForm = []
   \<and> recipe_form_values.additionalIngredients emptyForm = Some [0x20, 0xA0, 0x3000]
   \<and> isWhitespace 0x20 \<and> isWhitespace 0xA0 \<and> isWhitespace 0x3000
   \<and> \<not> truthy (ingredientPhoto freshGenerator)
   \<and> formErrors (fst (onSubmit (generateRecipe flakyAi) emptyForm (freshGenerator, setApiKey (Some ''AIza'') initialState)))
        ''availableIngredients'' = Some (''manual'', INGREDIENT_MESSAGE)
   \<and> generateRecipeCalls (fst (onSubmit (generateRecipe flakyAi) emptyForm (freshGenerator, setApiKey (Some ''AIza'') initialState))) = []"
  using onSubmit_blocks_without_ingredient_signal
          [of emptyForm freshGenerator "generateRecipe flakyAi" "setApiKey (Some ''AIza'') initialState"]
  by (simp add: emptyForm_def freshGenerator_def isWhitespace_def truthy_def)

text \<open>With one ingredient ticked and an API key, the same form issues a request.\<close>

lemma onSubmit_requests_with_ingredient:
  "generateRecipeCalls (fst (onSubmit (generateRecipe flakyAi) (emptyForm\<lparr>recipe_form_values.availableIngredients := [''Rice'']\<rparr>) (freshGenerator, setApiKey (Some ''AIza'') initialState))) \<noteq> []"
  by (simp add: onSubmit_def emptyForm_def freshGenerator_def setApiKey_def initialState_def truthy_def Let_def split: sum.splits option.splits error.splits)

section \<open>Properties of the recipe flow\<close>

lemma index0_nth: "xs \<noteq> [] \<Longrightarrow> index0 xs = Some (xs ! 0)"
  by (cases xs) simp_all

lemma generateRecipe_after_stage1:
  assumes "key \<noteq> []" and "generateOptionsPrompt ai input = Inr (Some opts)"
  shows "generateRecipe ai input key =
           (case selectStep ai input opts of
              None \<Rightarrow> Inr None
            | Some (sel, selq) \<Rightarrow> combineStep sel selq (imageStep ai sel))"
  using assms by (simp add: generateRecipe_def generateRecipeFlow_def)

text \<open>
  Claim C3: in the recipe generator, whenever stage 1 succeeds with five candidates, a
  failure of the stage-2 call selects the candidate at index 0, for the recipe and for
  the quote, and \<open>generateRecipe\<close> neither returns null nor throws because of it. The
  failure of the call is the exception its \<open>catch\<close> block receives.
\<close>

theorem stage2_exception_selects_first_candidate:
  assumes "key \<noteq> []"
    and "generateOptionsPrompt ai input = Inr (Some opts)"
    and "length (generate_recipe_options_output.recipeOptions opts) = 5"
    and "length (generate_recipe_options_output.quoteOptions opts) = 5"
    and "validateAndSelectPrompt ai (selectionInput input opts) = Inl e"
  shows "\<exists>out. generateRecipe ai input key = Inr (Some out)
              \<and> generate_recipe_output.recipeName out
                  = recipe_option.recipeName (generate_recipe_options_output.recipeOptions opts ! 0)
              \<and> generate_recipe_output.description out
                  = recipe_option.description (generate_recipe_options_output.recipeOptions opts ! 0)
              \<and> generate_recipe_output.instructions out
                  = recipe_option.instructions (generate_recipe_options_output.recipeOptions opts ! 0)
              \<and> generate_recipe_output.ingredientList out
                  = recipe_option.ingredientList (generate_recipe_options_output.recipeOptions opts ! 0)
              \<and> generate_recipe_output.missingIngredients out
                  = recipe_option.missingIngredients (generate_recipe_options_output.recipeOptions opts ! 0)
              \<and> generate_recipe_output.nutritionalInformation out
                  = recipe_option.nutritionalInformation (generate_recipe_options_output.recipeOptions opts ! 0)
              \<and> generate_recipe_output.quote out
                  = quote_option.quote (generate_recipe_options_output.quoteOptions opts ! 0)
              \<and> generate_recipe_output.quoteAuthor out
                  = quote_option.quoteAuthor (generate_recipe_options_output.quoteOptions opts ! 0)"
proof -
  from assms(3) have r: "index0 (generate_recipe_options_output.recipeOptions opts)
                          = Some (generate_recipe_options_output.recipeOptions opts ! 0)"
    by (intro index0_nth) auto
  from assms(4) have q: "index0 (generate_recipe_options_output.quoteOptions opts)
                          = Some (generate_recipe_options_output.quoteOptions opts ! 0)"
    by (intro index0_nth) auto
  show ?thesis
    using r q assms(5)
    by (simp add: generateRecipe_after_stage1 [OF assms(1) assms(2)] selectStep_def combineStep_def)
qed

theorem stage2_exception_selects_first_candidate_witness:
  "''AIza'' \<noteq> []
   \<and> generateOptionsPrompt flakyAi sampleInput = Inr (Some sampleOptions)
   \<and> length (generate_recipe_options_output.recipeOptions sampleOptions) = 5
   \<and> length (generate_recipe_options_output.quoteOptions sampleOptions) = 5
   \<and> validateAndSelectPrompt flakyAi (selectionInput sampleInput sampleOptions) = Inl (Error ''503 Service Unavailable'')
   \<and> nameOf (generateRecipe flakyAi sampleInput ''AIza'') = Some ''R0''
   \<and> quoteOf (generateRecipe flakyAi sampleInput ''AIza'') = Some ''Q0''"
  using stage2_exception_selects_first_candidate
          [of "''AIza''" flakyAi sampleInput sampleOptions "Error ''503 Service Unavailable''"]
  by (auto simp add: flakyAi_def sampleOptions_def sampleRecipe_def sampleQuote_def nameOf_def quoteOf_def)

section \<open>Properties of the stage-2 selection\<close>






section \<open>Properties of the media requests\<close>

lemma imageLoop_done: "m \<noteq> None \<or> maxAttempts \<le> attempts \<Longrightarrow> imageLoop ai p m attempts = (m, attempts)"
  by (subst imageLoop.simps) auto

lemma imageLoop_from:
  assumes "attempts < maxAttempts" and "n = Suc attempts"
  shows "imageLoop ai p None attempts =
     (if gen_failed (generate ai IMAGE_MODEL p n) then imageLoop ai p None n
      else (case generate ai IMAGE_MODEL p n of Inr r \<Rightarrow> (r, n) | Inl e \<Rightarrow> (None, n)))"
  using assms
  by (subst imageLoop.simps) (auto simp: gen_failed_def imageLoop_done split: sum.splits option.splits)

lemma imageLoop_unrolled:
  "imageLoop ai p None 0 =
     (if \<not> gen_failed (generate ai IMAGE_MODEL p 1) then (case generate ai IMAGE_MODEL p 1 of Inr r \<Rightarrow> (r, 1) | Inl e \<Rightarrow> (None, 1))
      else if \<not> gen_failed (generate ai IMAGE_MODEL p 2) then (case generate ai IMAGE_MODEL p 2 of Inr r \<Rightarrow> (r, 2) | Inl e \<Rightarrow> (None, 2))
      else if \<not> gen_failed (generate ai IMAGE_MODEL p 3) then (case generate ai IMAGE_MODEL p 3 of Inr r \<Rightarrow> (r, 3) | Inl e \<Rightarrow> (None, 3))
      else (None, 3))"
proof -
  have a3: "imageLoop ai p None 3 = (None, 3)"
    by (rule imageLoop_done) (simp add: maxAttempts_def)
  have a2: "imageLoop ai p None 2 =
      (if gen_failed (generate ai IMAGE_MODEL p 3) then imageLoop ai p None 3
       else (case generate ai IMAGE_MODEL p 3 of Inr r \<Rightarrow> (r, 3) | Inl e \<Rightarrow> (None, 3)))"
    by (rule imageLoop_from) (simp_all add: maxAttempts_def)
  have a1: "imageLoop ai p None 1 =
      (if gen_failed (generate ai IMAGE_MODEL p 2) then imageLoop ai p None 2
       else (case generate ai IMAGE_MODEL p 2 of Inr r \<Rightarrow> (r, 2) | Inl e \<Rightarrow> (None, 2)))"
    by (rule imageLoop_from) (simp_all add: maxAttempts_def)
  have a0: "imageLoop ai p None 0 =
      (if gen_failed (generate ai IMAGE_MODEL p 1) then imageLoop ai p None 1
       else (case generate ai IMAGE_MODEL p 1 of Inr r \<Rightarrow> (r, 1) | Inl e \<Rightarrow> (None, 1)))"
    by (rule imageLoop_from) (simp_all add: maxAttempts_def)
  show ?thesis by (simp only: a0 a1 a2 a3) simp
qed

lemma imageLoop_attempts:
  assumes "imageLoop ai p None 0 = (m, n)"
  shows "1 \<le> n \<and> n \<le> 3
         \<and> (\<forall>i. 1 \<le> i \<and> i < n \<longrightarrow> gen_failed (generate ai IMAGE_MODEL p i))
         \<and> (case m of Some x \<Rightarrow> generate ai IMAGE_MODEL p n = Inr (Some x)
                     | None \<Rightarrow> n = 3 \<and> gen_failed (generate ai IMAGE_MODEL p 3))"
proof -
  have small: "\<And>i::nat. 1 \<le> i \<Longrightarrow> i < 3 \<Longrightarrow> i = 1 \<or> i = 2" by arith
  show ?thesis
  proof (cases "gen_failed (generate ai IMAGE_MODEL p 1)")
    case False
    with assms show ?thesis
      by (auto simp: imageLoop_unrolled gen_failed_def split: sum.splits option.splits)
  next
    case f1: True
    show ?thesis
    proof (cases "gen_failed (generate ai IMAGE_MODEL p 2)")
      case False
      with f1 assms have "n = 2 \<and> generate ai IMAGE_MODEL p 2 = Inr m \<and> m \<noteq> None"
        by (auto simp: imageLoop_unrolled gen_failed_def split: sum.splits option.splits)
      moreover have "\<forall>i. 1 \<le> i \<and> i < (2::nat) \<longrightarrow> gen_failed (generate ai IMAGE_MODEL p i)"
      proof (intro allI impI)
        fix i :: nat
        assume "1 \<le> i \<and> i < 2"
        then have "i = 1" by arith
        with f1 show "gen_failed (generate ai IMAGE_MODEL p i)" by simp
      qed
      ultimately show ?thesis by (auto split: option.splits)
    next
      case f2: True
      have two: "\<forall>i. 1 \<le> i \<and> i < (3::nat) \<longrightarrow> gen_failed (generate ai IMAGE_MODEL p i)"
        using f1 f2 small by blast
      show ?thesis
      proof (cases "gen_failed (generate ai IMAGE_MODEL p 3)")
        case False
        with f1 f2 assms have "n = 3 \<and> generate ai IMAGE_MODEL p 3 = Inr m \<and> m \<noteq> None"
          by (auto simp: imageLoop_unrolled gen_failed_def split: sum.splits option.splits)
        with two show ?thesis by (auto split: option.splits)
      next
        case True
        with f1 f2 assms have "n = 3 \<and> m = None"
          by (auto simp: imageLoop_unrolled)
        with two True show ?thesis by simp
      qed
    qed
  qed
qed


lemma imageLoop_all_failed:
  assumes "\<forall>i. 1 \<le> i \<and> i \<le> 3 \<longrightarrow> gen_failed (generate ai IMAGE_MODEL p i)"
  shows "imageLoop ai p None 0 = (None, 3)"
proof -
  from assms have "gen_failed (generate ai IMAGE_MODEL p 1)" and "gen_failed (generate ai IMAGE_MODEL p 2)"
    and "gen_failed (generate ai IMAGE_MODEL p 3)" by simp_all
  then show ?thesis by (simp add: imageLoop_unrolled)
qed

lemma imagePromise_all_failed:
  assumes "\<forall>i. 1 \<le> i \<and> i \<le> 3 \<longrightarrow> gen_failed (generate ai IMAGE_MODEL (imagePrompt input rec) i)"
  shows "dish_with_photo.photoDataUri (imagePromise ai input rec) = []"
  by (simp add: imagePromise_def imageLoop_all_failed [OF assms] url_or_empty_def)

lemma audioLoop_done: "maxAttempts \<le> attempts \<Longrightarrow> audioLoop ai p m attempts = Inr m"
  by (subst audioLoop.simps) auto

lemma audioLoop_failed_step:
  assumes "attempts < maxAttempts" and "n = Suc attempts" and "gen_failed (generate ai TTS_MODEL p n)"
  shows "audioLoop ai p None attempts = Inl [] \<or> audioLoop ai p None attempts = audioLoop ai p None n"
  using assms
  by (subst audioLoop.simps, subst (2) audioLoop.simps)
     (auto simp: gen_failed_def split: sum.splits option.splits)

lemma audioLoop_all_failed:
  assumes "\<forall>i. 1 \<le> i \<and> i \<le> 3 \<longrightarrow> gen_failed (generate ai TTS_MODEL p i)"
  shows "audioLoop ai p None 0 = Inl [] \<or> audioLoop ai p None 0 = Inr None"
proof -
  from assms have f1: "gen_failed (generate ai TTS_MODEL p 1)" and f2: "gen_failed (generate ai TTS_MODEL p 2)"
    and f3: "gen_failed (generate ai TTS_MODEL p 3)" by simp_all
  have a3: "audioLoop ai p None 3 = Inr None"
    by (rule audioLoop_done) (simp add: maxAttempts_def)
  have a2: "audioLoop ai p None 2 = Inl [] \<or> audioLoop ai p None 2 = audioLoop ai p None 3"
    by (rule audioLoop_failed_step [OF _ _ f3]) (simp_all add: maxAttempts_def)
  have a1: "audioLoop ai p None 1 = Inl [] \<or> audioLoop ai p None 1 = audioLoop ai p None 2"
    by (rule audioLoop_failed_step [OF _ _ f2]) (simp_all add: maxAttempts_def)
  have a0: "audioLoop ai p None 0 = Inl [] \<or> audioLoop ai p None 0 = audioLoop ai p None 1"
    by (rule audioLoop_failed_step [OF _ _ f1]) (simp_all add: maxAttempts_def)
  from a0 a1 a2 a3 show ?thesis by auto
qed

lemma audioPromise_all_failed:
  assumes "\<forall>i. 1 \<le> i \<and> i \<le> 3 \<longrightarrow> gen_failed (generate ai TTS_MODEL (culinary_passport_text.chefCardMessage t) i)"
  shows "audioPromise ai t = Inr []"
  using audioLoop_all_failed [OF assms] by (auto simp: audioPromise_def)

lemma culinaryPassportFlow_after_text:
  assumes "key \<noteq> []" and "textLoop ai input None 0 = Inr (Inr (Some t))" and "audioPromise ai t = Inr uri"
  shows "generateCulinaryPassport ai input key =
           Inr \<lparr> culinary_passport.recommendations =
                   map (imagePromise ai input) (culinary_passport_text.recommendations t),
                 culinary_passport.chefCardMessage = culinary_passport_text.chefCardMessage t,
                 chefCardAudioUri = uri \<rparr>"
  using assms by (simp add: generateCulinaryPassport_def culinaryPassportFlow_def)


text \<open>
  Claim C4: for every artifact that needs a generated image, the photo of the selected
  recipe and the photo of each passport recommendation, the request is retried up to 3
  times before the image field is left empty. The recipe flow asks once: with a
  provider whose first answer is an exception and whose second answer would carry the
  image, the photo of the recipe is empty.
\<close>

theorem recipe_image_is_not_retried_counterexample:
  "gen_failed (generate flakyAi IMAGE_MODEL (recipeImagePrompt (sampleRecipe ''R0'')) 1)
   \<and> generate flakyAi IMAGE_MODEL (recipeImagePrompt (sampleRecipe ''R0'')) 2 = Inr (Some sampleMedia)
   \<and> nameOf (generateRecipe flakyAi sampleInput ''AIza'') = Some ''R0''
   \<and> photoOf (generateRecipe flakyAi sampleInput ''AIza'') = Some []"
  by (simp add: flakyAi_def gen_failed_def sampleOptions_def sampleRecipe_def sampleQuote_def
        nameOf_def photoOf_def generateRecipe_def generateRecipeFlow_def selectStep_def
        combineStep_def imageStep_def url_or_empty_def)

lemma recipe_photo_is_first_answer:
  assumes "key \<noteq> []"
    and "generateOptionsPrompt ai rinput = Inr (Some opts)"
    and "selectStep ai rinput opts = Some (Some r, Some q)"
  shows "photoOf (generateRecipe ai rinput key)
           = Some (url_or_empty (case generate ai IMAGE_MODEL (recipeImagePrompt r) 1 of
                                   Inr m \<Rightarrow> m | Inl e \<Rightarrow> None))"
  using assms(3)
  by (simp add: generateRecipe_after_stage1 [OF assms(1) assms(2)] combineStep_def imageStep_def photoOf_def)

text \<open>
  Claim C4 as amended: the image of each passport recommendation is requested at least
  once and at most 3 times, each request but the last having failed; the photo is the
  media of the last request, and it is left empty only after 3 failed requests. The
  image of the selected recipe is requested once, with no retry: the photo of the
  recipe is the media of the first answer to that request, it is left empty if that
  single request fails, and no answer of the provider beyond the first changes the
  result of \<open>generateRecipe\<close>.
\<close>

theorem image_requests_of_the_two_flows:
  "(imageLoop ai (imagePrompt pinput rec) None 0 = (m, n) \<longrightarrow>
      dish_with_photo.photoDataUri (imagePromise ai pinput rec) = url_or_empty m
      \<and> 1 \<le> n \<and> n \<le> 3
      \<and> (\<forall>i. 1 \<le> i \<and> i < n \<longrightarrow> gen_failed (generate ai IMAGE_MODEL (imagePrompt pinput rec) i))
      \<and> (case m of
            Some x \<Rightarrow> generate ai IMAGE_MODEL (imagePrompt pinput rec) n = Inr (Some x)
          | None \<Rightarrow> n = 3 \<and> gen_failed (generate ai IMAGE_MODEL (imagePrompt pinput rec) 3)))
   \<and> (key \<noteq> [] \<and> generateOptionsPrompt ai rinput = Inr (Some opts)
       \<and> selectStep ai rinput opts = Some (Some r, Some q) \<longrightarrow>
      photoOf (generateRecipe ai rinput key)
        = Some (url_or_empty (case generate ai IMAGE_MODEL (recipeImagePrompt r) 1 of
                                Inr a \<Rightarrow> a | Inl e \<Rightarrow> None))
      \<and> (gen_failed (generate ai IMAGE_MODEL (recipeImagePrompt r) 1) \<longrightarrow>
            photoOf (generateRecipe ai rinput key) = Some []))
   \<and> (generateOptionsPrompt ai2 = generateOptionsPrompt ai
       \<and> validateAndSelectPrompt ai2 = validateAndSelectPrompt ai
       \<and> (\<forall>model prompt. generate ai2 model prompt 1 = generate ai model prompt 1) \<longrightarrow>
      generateRecipe ai2 rinput key = generateRecipe ai rinput key)"
proof (intro conjI impI)
  assume l: "imageLoop ai (imagePrompt pinput rec) None 0 = (m, n)"
  then show "dish_with_photo.photoDataUri (imagePromise ai pinput rec) = url_or_empty m"
    by (simp add: imagePromise_def)
  from imageLoop_attempts [OF l]
  show "1 \<le> n" and "n \<le> 3"
    and "\<forall>i. 1 \<le> i \<and> i < n \<longrightarrow> gen_failed (generate ai IMAGE_MODEL (imagePrompt pinput rec) i)"
    and "case m of
            Some x \<Rightarrow> generate ai IMAGE_MODEL (imagePrompt pinput rec) n = Inr (Some x)
          | None \<Rightarrow> n = 3 \<and> gen_failed (generate ai IMAGE_MODEL (imagePrompt pinput rec) 3)"
    by simp_all
next
  assume h: "key \<noteq> [] \<and> generateOptionsPrompt ai rinput = Inr (Some opts)
       \<and> selectStep ai rinput opts = Some (Some r, Some q)"
  then have h1: "key \<noteq> []" and h2: "generateOptionsPrompt ai rinput = Inr (Some opts)"
    and h3: "selectStep ai rinput opts = Some (Some r, Some q)" by simp_all
  have p: "photoOf (generateRecipe ai rinput key)
        = Some (url_or_empty (case generate ai IMAGE_MODEL (recipeImagePrompt r) 1 of
                                Inr a \<Rightarrow> a | Inl e \<Rightarrow> None))"
    by (rule recipe_photo_is_first_answer [OF h1 h2 h3])
  then show "photoOf (generateRecipe ai rinput key)
        = Some (url_or_empty (case generate ai IMAGE_MODEL (recipeImagePrompt r) 1 of
                                Inr a \<Rightarrow> a | Inl e \<Rightarrow> None))" .
  assume "gen_failed (generate ai IMAGE_MODEL (recipeImagePrompt r) 1)"
  then show "photoOf (generateRecipe ai rinput key) = Some []"
    unfolding p by (auto simp: gen_failed_def url_or_empty_def split: sum.splits option.splits)
next
  assume "generateOptionsPrompt ai2 = generateOptionsPrompt ai
       \<and> validateAndSelectPrompt ai2 = validateAndSelectPrompt ai
       \<and> (\<forall>model prompt. generate ai2 model prompt 1 = generate ai model prompt 1)"
  then have o: "generateOptionsPrompt ai2 = generateOptionsPrompt ai"
    and v: "validateAndSelectPrompt ai2 = validateAndSelectPrompt ai"
    and g: "\<And>model prompt. generate ai2 model prompt 1 = generate ai model prompt 1"
    by simp_all
  have s: "selectStep ai2 rinput = selectStep ai rinput"
    by (simp add: fun_eq_iff selectStep_def v)
  have i: "imageStep ai2 = imageStep ai"
    using g by (auto simp add: fun_eq_iff imageStep_def split: option.splits)
  show "generateRecipe ai2 rinput key = generateRecipe ai rinput key"
    unfolding generateRecipe_def generateRecipeFlow_def o s i by (rule refl)
qed

lemma imageLoop_flakyAi: "imageLoop flakyAi p None 0 = (Some sampleMedia, 2)"
  by (simp add: imageLoop_unrolled) (simp add: flakyAi_def gen_failed_def)

theorem image_requests_of_the_two_flows_witness:
  "imageLoop flakyAi (imagePrompt samplePassportInput (sampleDish ''Pho'')) None 0 = (Some sampleMedia, 2)
   \<and> ''AIza'' \<noteq> []
   \<and> generateOptionsPrompt healthyMediaAi sampleInput = Inr (Some sampleOptions)
   \<and> selectStep healthyMediaAi sampleInput sampleOptions = Some (Some (sampleRecipe ''R0''), Some (sampleQuote ''Q0''))
   \<and> generate healthyMediaAi IMAGE_MODEL (recipeImagePrompt (sampleRecipe ''R0'')) 1 = Inr (Some sampleMedia)
   \<and> generateOptionsPrompt flakyAi = generateOptionsPrompt healthyMediaAi
   \<and> validateAndSelectPrompt flakyAi = validateAndSelectPrompt healthyMediaAi
   \<and> generate flakyAi IMAGE_MODEL (recipeImagePrompt (sampleRecipe ''R0'')) 2
       = generate healthyMediaAi IMAGE_MODEL (recipeImagePrompt (sampleRecipe ''R0'')) 2
   \<and> dish_with_photo.photoDataUri (imagePromise flakyAi samplePassportInput (sampleDish ''Pho''))
       = ''data:image/png;base64,AAAA''
   \<and> gen_failed (generate flakyAi IMAGE_MODEL (imagePrompt samplePassportInput (sampleDish ''Pho'')) 1)
   \<and> photoOf (generateRecipe healthyMediaAi sampleInput ''AIza'') = Some ''data:image/png;base64,AAAA''
   \<and> photoOf (generateRecipe flakyAi sampleInput ''AIza'') = Some []
   \<and> generateRecipe deadMediaAi sampleInput ''AIza'' = generateRecipe flakyAi sampleInput ''AIza''"
proof -
  have l: "imageLoop flakyAi (imagePrompt samplePassportInput (sampleDish ''Pho'')) None 0 = (Some sampleMedia, 2)"
    by (rule imageLoop_flakyAi)
  have k: "''AIza'' \<noteq> []" by simp
  have o: "generateOptionsPrompt healthyMediaAi sampleInput = Inr (Some sampleOptions)"
    and o': "generateOptionsPrompt flakyAi sampleInput = Inr (Some sampleOptions)"
    by (simp_all add: healthyMediaAi_def flakyAi_def)
  have s: "selectStep healthyMediaAi sampleInput sampleOptions
             = Some (Some (sampleRecipe ''R0''), Some (sampleQuote ''Q0''))"
    and s': "selectStep flakyAi sampleInput sampleOptions
             = Some (Some (sampleRecipe ''R0''), Some (sampleQuote ''Q0''))"
    by (simp_all add: selectStep_def healthyMediaAi_def flakyAi_def sampleOptions_def)
  have g: "generate healthyMediaAi IMAGE_MODEL (recipeImagePrompt (sampleRecipe ''R0'')) 1 = Inr (Some sampleMedia)"
    and g': "generate flakyAi IMAGE_MODEL (recipeImagePrompt (sampleRecipe ''R0'')) 1
               = Inl (Error ''503 Service Unavailable'')"
    and g2: "generate flakyAi IMAGE_MODEL (recipeImagePrompt (sampleRecipe ''R0'')) 2
               = generate healthyMediaAi IMAGE_MODEL (recipeImagePrompt (sampleRecipe ''R0'')) 2"
    by (simp_all add: healthyMediaAi_def flakyAi_def)
  have same: "generateOptionsPrompt flakyAi = generateOptionsPrompt healthyMediaAi"
    "validateAndSelectPrompt flakyAi = validateAndSelectPrompt healthyMediaAi"
    by (simp_all add: healthyMediaAi_def)
  have h: "generateOptionsPrompt deadMediaAi = generateOptionsPrompt flakyAi
       \<and> validateAndSelectPrompt deadMediaAi = validateAndSelectPrompt flakyAi
       \<and> (\<forall>model prompt. generate deadMediaAi model prompt 1 = generate flakyAi model prompt 1)"
    by (simp add: deadMediaAi_def flakyAi_def)
  have passport: "dish_with_photo.photoDataUri (imagePromise flakyAi samplePassportInput (sampleDish ''Pho''))
                    = ''data:image/png;base64,AAAA''
                  \<and> gen_failed (generate flakyAi IMAGE_MODEL (imagePrompt samplePassportInput (sampleDish ''Pho'')) 1)
                  \<and> generateRecipe deadMediaAi sampleInput ''AIza'' = generateRecipe flakyAi sampleInput ''AIza''"
    using l h
      image_requests_of_the_two_flows
        [where ai = flakyAi and pinput = samplePassportInput and rec = "sampleDish ''Pho''"
           and m = "Some sampleMedia" and n = 2 and ?ai2.0 = deadMediaAi and rinput = sampleInput
           and key = "''AIza''" and opts = sampleOptions
           and r = "sampleRecipe ''R0''" and q = "sampleQuote ''Q0''"]
    by (simp add: url_or_empty_def sampleMedia_def)
  have healthy: "photoOf (generateRecipe healthyMediaAi sampleInput ''AIza'') = Some ''data:image/png;base64,AAAA''"
    using k o s g
      image_requests_of_the_two_flows
        [where ai = healthyMediaAi and rinput = sampleInput and key = "''AIza''" and opts = sampleOptions
           and r = "sampleRecipe ''R0''" and q = "sampleQuote ''Q0''" and ?ai2.0 = healthyMediaAi
           and pinput = samplePassportInput and rec = "sampleDish ''Pho''" and m = None and n = 0,
         THEN conjunct2, THEN conjunct1]
    by (simp add: url_or_empty_def sampleMedia_def)
  have flaky: "photoOf (generateRecipe flakyAi sampleInput ''AIza'') = Some []"
    using k o' s' g'
      image_requests_of_the_two_flows
        [where ai = flakyAi and rinput = sampleInput and key = "''AIza''" and opts = sampleOptions
           and r = "sampleRecipe ''R0''" and q = "sampleQuote ''Q0''" and ?ai2.0 = flakyAi
           and pinput = samplePassportInput and rec = "sampleDish ''Pho''" and m = None and n = 0,
         THEN conjunct2, THEN conjunct1]
    by (simp add: gen_failed_def url_or_empty_def)
  from l k o s g g2 same passport healthy flaky show ?thesis by simp
qed

text \<open>
  Claim C5: if every image request, or every audio request, for an artifact fails, the
  operation still returns a result whose image field, or audio field, is the empty
  string, and throws nothing because of the media. For the recipe the single image
  request fails; for the passport all three audio requests fail, or all three image
  requests of a recommendation fail while the audio promise resolves.
\<close>

theorem media_failure_leaves_field_empty:
  "(key \<noteq> [] \<and> generateOptionsPrompt ai rinput = Inr (Some opts)
      \<and> selectStep ai rinput opts = Some (Some r, Some q)
      \<and> gen_failed (generate ai IMAGE_MODEL (recipeImagePrompt r) 1) \<longrightarrow>
      photoOf (generateRecipe ai rinput key) = Some []
      \<and> nameOf (generateRecipe ai rinput key) = Some (recipe_option.recipeName r))
   \<and> (key \<noteq> [] \<and> textLoop ai pinput None 0 = Inr (Inr (Some t))
      \<and> (\<forall>i. 1 \<le> i \<and> i \<le> 3 \<longrightarrow>
            gen_failed (generate ai TTS_MODEL (culinary_passport_text.chefCardMessage t) i)) \<longrightarrow>
      audioOf (generateCulinaryPassport ai pinput key) = Some [])
   \<and> (key \<noteq> [] \<and> textLoop ai pinput None 0 = Inr (Inr (Some t))
      \<and> audioPromise ai t = Inr uri \<longrightarrow>
      (\<exists>p. generateCulinaryPassport ai pinput key = Inr p
         \<and> chefCardAudioUri p = uri
         \<and> length (culinary_passport.recommendations p) = length (culinary_passport_text.recommendations t)
         \<and> (\<forall>j < length (culinary_passport_text.recommendations t).
              (\<forall>i. 1 \<le> i \<and> i \<le> 3 \<longrightarrow>
                 gen_failed (generate ai IMAGE_MODEL
                               (imagePrompt pinput (culinary_passport_text.recommendations t ! j)) i)) \<longrightarrow>
              dish_with_photo.photoDataUri (culinary_passport.recommendations p ! j) = [])))"
proof (intro conjI impI)
  assume h: "key \<noteq> [] \<and> generateOptionsPrompt ai rinput = Inr (Some opts)
      \<and> selectStep ai rinput opts = Some (Some r, Some q)
      \<and> gen_failed (generate ai IMAGE_MODEL (recipeImagePrompt r) 1)"
  then have "imageStep ai (Some r) = None"
    by (auto simp: imageStep_def gen_failed_def split: sum.splits option.splits)
  with h show "photoOf (generateRecipe ai rinput key) = Some []"
    and "nameOf (generateRecipe ai rinput key) = Some (recipe_option.recipeName r)"
    by (simp_all add: generateRecipe_def generateRecipeFlow_def combineStep_def photoOf_def nameOf_def
          url_or_empty_def)
next
  assume h: "key \<noteq> [] \<and> textLoop ai pinput None 0 = Inr (Inr (Some t))
      \<and> (\<forall>i. 1 \<le> i \<and> i \<le> 3 \<longrightarrow>
            gen_failed (generate ai TTS_MODEL (culinary_passport_text.chefCardMessage t) i))"
  then have "audioPromise ai t = Inr []" by (intro audioPromise_all_failed) simp
  with h show "audioOf (generateCulinaryPassport ai pinput key) = Some []"
    by (simp add: culinaryPassportFlow_after_text audioOf_def)
next
  assume h: "key \<noteq> [] \<and> textLoop ai pinput None 0 = Inr (Inr (Some t)) \<and> audioPromise ai t = Inr uri"
  then have eq: "generateCulinaryPassport ai pinput key =
           Inr \<lparr> culinary_passport.recommendations =
                   map (imagePromise ai pinput) (culinary_passport_text.recommendations t),
                 culinary_passport.chefCardMessage = culinary_passport_text.chefCardMessage t,
                 chefCardAudioUri = uri \<rparr>"
    by (intro culinaryPassportFlow_after_text) simp_all
  show "\<exists>p. generateCulinaryPassport ai pinput key = Inr p
         \<and> chefCardAudioUri p = uri
         \<and> length (culinary_passport.recommendations p) = length (culinary_passport_text.recommendations t)
         \<and> (\<forall>j < length (culinary_passport_text.recommendations t).
              (\<forall>i. 1 \<le> i \<and> i \<le> 3 \<longrightarrow>
                 gen_failed (generate ai IMAGE_MODEL
                               (imagePrompt pinput (culinary_passport_text.recommendations t ! j)) i)) \<longrightarrow>
              dish_with_photo.photoDataUri (culinary_passport.recommendations p ! j) = [])"
    unfolding eq by (simp add: imagePromise_all_failed)
qed


lemma textLoop_first_answer:
  "passportTextPrompt ai input 1 = Inr (Some t) \<Longrightarrow> textLoop ai input None 0 = Inr (Inr (Some t))"
  by (subst textLoop.simps, subst textLoop.simps) (simp add: maxTextAttempts_def)

theorem media_failure_leaves_field_empty_witness:
  "''AIza'' \<noteq> []
   \<and> generateOptionsPrompt deadMediaAi sampleInput = Inr (Some sampleOptions)
   \<and> selectStep deadMediaAi sampleInput sampleOptions = Some (Some (sampleRecipe ''R0''), Some (sampleQuote ''Q0''))
   \<and> gen_failed (generate deadMediaAi IMAGE_MODEL (recipeImagePrompt (sampleRecipe ''R0'')) 1)
   \<and> textLoop deadMediaAi samplePassportInput None 0 = Inr (Inr (Some sampleText))
   \<and> gen_failed (generate deadMediaAi TTS_MODEL (culinary_passport_text.chefCardMessage sampleText) 1)
   \<and> gen_failed (generate deadMediaAi TTS_MODEL (culinary_passport_text.chefCardMessage sampleText) 2)
   \<and> gen_failed (generate deadMediaAi TTS_MODEL (culinary_passport_text.chefCardMessage sampleText) 3)
   \<and> audioPromise deadMediaAi sampleText = Inr []
   \<and> photoOf (generateRecipe deadMediaAi sampleInput ''AIza'') = Some []
   \<and> audioOf (generateCulinaryPassport deadMediaAi samplePassportInput ''AIza'') = Some []
   \<and> photosOf (generateCulinaryPassport deadMediaAi samplePassportInput ''AIza'') = Some [[], []]"
proof -
  have dead: "\<And>model prompt i. gen_failed (generate deadMediaAi model prompt i)"
    by (simp add: deadMediaAi_def gen_failed_def)
  have h1: "generateOptionsPrompt deadMediaAi sampleInput = Inr (Some sampleOptions)"
    by (simp add: deadMediaAi_def flakyAi_def)
  have h2: "selectStep deadMediaAi sampleInput sampleOptions
              = Some (Some (sampleRecipe ''R0''), Some (sampleQuote ''Q0''))"
    by (simp add: selectStep_def deadMediaAi_def flakyAi_def sampleOptions_def)
  have h3: "textLoop deadMediaAi samplePassportInput None 0 = Inr (Inr (Some sampleText))"
    by (rule textLoop_first_answer) (simp add: deadMediaAi_def flakyAi_def)
  have h4: "audioPromise deadMediaAi sampleText = Inr []"
    by (rule audioPromise_all_failed) (simp add: dead)
  have len: "length (culinary_passport_text.recommendations sampleText) = 2"
    by (simp add: sampleText_def)
  from media_failure_leaves_field_empty
         [of "''AIza''" deadMediaAi sampleInput sampleOptions "sampleRecipe ''R0''" "sampleQuote ''Q0''"
             samplePassportInput sampleText "[]"]
  have recipe: "photoOf (generateRecipe deadMediaAi sampleInput ''AIza'') = Some []"
    and audio: "audioOf (generateCulinaryPassport deadMediaAi samplePassportInput ''AIza'') = Some []"
    and passport: "\<exists>p. generateCulinaryPassport deadMediaAi samplePassportInput ''AIza'' = Inr p
         \<and> length (culinary_passport.recommendations p) = 2
         \<and> (\<forall>j < 2. dish_with_photo.photoDataUri (culinary_passport.recommendations p ! j) = [])"
    using h1 h2 h3 h4 dead len by auto
  from passport obtain p where p: "generateCulinaryPassport deadMediaAi samplePassportInput ''AIza'' = Inr p"
    and l: "length (culinary_passport.recommendations p) = 2"
    and e: "\<forall>j < 2. dish_with_photo.photoDataUri (culinary_passport.recommendations p ! j) = []"
    by blast
  from e have "dish_with_photo.photoDataUri (culinary_passport.recommendations p ! 0) = []"
    and "dish_with_photo.photoDataUri (culinary_passport.recommendations p ! 1) = []" by simp_all
  with l have "map dish_with_photo.photoDataUri (culinary_passport.recommendations p) = [[], []]"
    by (cases "culinary_passport.recommendations p"; cases "tl (culinary_passport.recommendations p)") auto
  with p have photos: "photosOf (generateCulinaryPassport deadMediaAi samplePassportInput ''AIza'') = Some [[], []]"
    by (simp add: photosOf_def)
  from h1 h2 h3 h4 dead recipe audio photos show ?thesis by simp
qed

end
